theory Spec2Isabelle
  imports Complex_Main
begin

section \<open>Shared vocabulary\<close>

text \<open>
  The Electron main process of the overlay is modelled by explicit state passing.
  Every operation returns the state it leaves behind together with the list of
  externally visible effects it performed, in program order: calls on the
  \<^verbatim>\<open>BrowserWindow\<close>, messages sent to the renderer, calls of collaborators, and an
  exception that leaves the operation.  Writes to the log file and to the console are
  informational and are not part of the model.
\<close>

datatype view = Queue | Solutions

datatype mode = Screenshot | Text

text \<open>JavaScript strings are sequences of UTF-16 code units.\<close>

type_synonym jsstring = "nat list"

definition js :: "string \<Rightarrow> jsstring" where
  "js s = map of_char s"

subsection \<open>JavaScript numbers\<close>

text \<open>A JavaScript number is a finite number, one of the two infinities, or
  \<^verbatim>\<open>NaN\<close>.  Finite numbers are modelled by \<^typ>\<open>real\<close>: the rounding of doubles and
  the negative zero are not modelled.  Pixel quantities that Electron reports for
  the display are integers, kept as \<^typ>\<open>int\<close>.\<close>

datatype jsnum = Num real | PosInf | NegInf | NaN

fun jneg :: "jsnum \<Rightarrow> jsnum" where
  "jneg (Num a) = Num (- a)"
| "jneg PosInf = NegInf"
| "jneg NegInf = PosInf"
| "jneg NaN = NaN"

text \<open>\<^verbatim>\<open>a + b\<close> and \<^verbatim>\<open>a - b\<close>.\<close>

fun jadd :: "jsnum \<Rightarrow> jsnum \<Rightarrow> jsnum" where
  "jadd NaN b = NaN"
| "jadd a NaN = NaN"
| "jadd (Num a) (Num b) = Num (a + b)"
| "jadd PosInf NegInf = NaN"
| "jadd NegInf PosInf = NaN"
| "jadd PosInf b = PosInf"
| "jadd a PosInf = PosInf"
| "jadd NegInf b = NegInf"
| "jadd a NegInf = NegInf"

definition jsub :: "jsnum \<Rightarrow> jsnum \<Rightarrow> jsnum" where
  "jsub a b = jadd a (jneg b)"

text \<open>\<^verbatim>\<open>a / 2\<close>.\<close>

fun jhalf :: "jsnum \<Rightarrow> jsnum" where
  "jhalf (Num a) = Num (a / 2)"
| "jhalf PosInf = PosInf"
| "jhalf NegInf = NegInf"
| "jhalf NaN = NaN"

text \<open>\<^verbatim>\<open>a <= b\<close>: false as soon as one side is \<^verbatim>\<open>NaN\<close>.\<close>

fun jle :: "jsnum \<Rightarrow> jsnum \<Rightarrow> bool" where
  "jle NaN b = False"
| "jle a NaN = False"
| "jle (Num a) (Num b) = (a \<le> b)"
| "jle NegInf b = True"
| "jle a PosInf = True"
| "jle PosInf b = False"
| "jle a NegInf = False"

text \<open>\<^verbatim>\<open>Math.min(a, b)\<close> and \<^verbatim>\<open>Math.max(a, b)\<close>: \<^verbatim>\<open>NaN\<close> as soon as one argument
  is.\<close>

definition Math_min :: "jsnum \<Rightarrow> jsnum \<Rightarrow> jsnum" where
  "Math_min a b = (if a = NaN \<or> b = NaN then NaN else if jle a b then a else b)"

definition Math_max :: "jsnum \<Rightarrow> jsnum \<Rightarrow> jsnum" where
  "Math_max a b = (if a = NaN \<or> b = NaN then NaN else if jle a b then b else a)"

text \<open>\<^verbatim>\<open>Math.ceil(a)\<close> and \<^verbatim>\<open>Math.round(a)\<close> (halves round up).\<close>

fun Math_ceil :: "jsnum \<Rightarrow> jsnum" where
  "Math_ceil (Num a) = Num (real_of_int \<lceil>a\<rceil>)"
| "Math_ceil PosInf = PosInf"
| "Math_ceil NegInf = NegInf"
| "Math_ceil NaN = NaN"

fun Math_round :: "jsnum \<Rightarrow> jsnum" where
  "Math_round (Num a) = Num (real_of_int \<lfloor>a + 1 / 2\<rfloor>)"
| "Math_round PosInf = PosInf"
| "Math_round NegInf = NegInf"
| "Math_round NaN = NaN"

text \<open>\<^verbatim>\<open>a || 0\<close>, also written \<^verbatim>\<open>Number(a) || 0\<close>: zero and \<^verbatim>\<open>NaN\<close> are falsy.\<close>

fun or0 :: "jsnum \<Rightarrow> jsnum" where
  "or0 NaN = Num 0"
| "or0 a = a"

definition ofInt :: "int \<Rightarrow> jsnum" where
  "ofInt i = Num (real_of_int i)"

subsection \<open>Messages and window calls\<close>

text \<open>The channels of \<^verbatim>\<open>webContents.send\<close> used by the main process
  (\<^verbatim>\<open>PROCESSING_EVENTS\<close> of \<^verbatim>\<open>AppState\<close> and the three literal channel names of
  the shortcut handlers).\<close>

datatype channel =
    UNAUTHORIZED | NO_SCREENSHOTS | API_KEY_OUT_OF_CREDITS | NO_QUERY
  | INITIAL_START | PROBLEM_EXTRACTED | SOLUTION_SUCCESS | INITIAL_SOLUTION_ERROR
  | DEBUG_START | DEBUG_SUCCESS | DEBUG_ERROR
  | SCREENSHOT_TAKEN | RESET_VIEW | MODE_CHANGED

datatype payload = NoPayload | ShotPayload string string | ModePayload mode

datatype js_error =
    ObjectDestroyed \<comment> \<open>Electron's TypeError "Object has been destroyed"\<close>
  | NoMainWindow \<comment> \<open>\<^verbatim>\<open>new Error("No main window available")\<close>\<close>
  | OtherError string

text \<open>Calls on the window, with the arguments the code hands to Electron.\<close>

datatype wcall =
    SetBounds jsnum jsnum jsnum jsnum
  | SetPosition jsnum jsnum
  | Hide
  | ShowInactive
  | FocusPrevious
  | SetAlwaysOnTop string
  | Raise js_error

section \<open>The window controller (\<^verbatim>\<open>WindowHelper\<close>)\<close>

text \<open>What the code reads from the \<^verbatim>\<open>BrowserWindow\<close>: which window object it is,
  whether it is destroyed, whether it has focus, and its bounds
  \<open>(x, y, width, height)\<close>.  The window takes the bounds and the position it is given;
  any method but \<^verbatim>\<open>isDestroyed\<close> called on a destroyed window raises.\<close>

record BrowserWindow =
  windowId :: nat
  isDestroyed :: bool
  isFocused :: bool
  getBounds :: "jsnum \<times> jsnum \<times> jsnum \<times> jsnum"

record Display =
  workAreaWidth :: int
  workAreaHeight :: int

text \<open>The fields of the class, and \<open>listening\<close>: whether \<^verbatim>\<open>setupWindowListeners\<close>
  has installed the listeners on the main window.\<close>

record WindowHelper =
  mainWindow :: "BrowserWindow option"
  isWindowVisible :: bool
  windowPosition :: "(jsnum \<times> jsnum) option"
  windowSize :: "(jsnum \<times> jsnum) option"
  screenWidth :: int
  screenHeight :: int
  step :: int
  currentX :: jsnum
  currentY :: jsnum
  wasFocused :: bool
  listening :: bool

definition WindowHelper_init :: WindowHelper where
  "WindowHelper_init =
     \<lparr>mainWindow = None, isWindowVisible = False, windowPosition = None,
      windowSize = None, screenWidth = 0, screenHeight = 0, step = 0,
      currentX = Num 0, currentY = Num 0, wasFocused = False, listening = False\<rparr>"

definition usable :: "BrowserWindow option \<Rightarrow> bool" where
  "usable w = (case w of None \<Rightarrow> False | Some b \<Rightarrow> \<not> isDestroyed b)"

text \<open>\<^verbatim>\<open>Math.floor(workArea.width * (hasDebugged ? 0.75 : 0.4))\<close>.  For the integer
  widths a display reports, the double-precision product rounds to the same integer
  part as the exact one.\<close>

definition maxAllowedWidth :: "Display \<Rightarrow> bool \<Rightarrow> int" where
  "maxAllowedWidth d hasDebugged =
     \<lfloor>real_of_int (workAreaWidth d) * (if hasDebugged then 3 / 4 else 2 / 5)\<rfloor>"

text \<open>\<^verbatim>\<open>setWindowDimensions(width, height)\<close>: the two arguments are any JavaScript
  numbers; nothing tests them before \<^verbatim>\<open>Math.min\<close> and \<^verbatim>\<open>Math.max\<close>.\<close>

definition setWindowDimensions ::
  "Display \<Rightarrow> bool \<Rightarrow> jsnum \<Rightarrow> jsnum \<Rightarrow> WindowHelper \<Rightarrow> WindowHelper \<times> wcall list" where
  "setWindowDimensions d hasDebugged width height wh =
     (case mainWindow wh of
        None \<Rightarrow> (wh, [])
      | Some w \<Rightarrow>
          if isDestroyed w then (wh, [])
          else
            let (curX, curY, _, _) = getBounds w;
                newWidth = Math_min (jadd width (Num 32)) (ofInt (maxAllowedWidth d hasDebugged));
                newHeight = Math_max (Math_ceil height) (Num 100);
                maxX = jsub (ofInt (workAreaWidth d)) newWidth;
                newX = Math_min (Math_max curX (Num 0)) maxX
            in (wh\<lparr>mainWindow := Some (w\<lparr>getBounds := (newX, curY, newWidth, newHeight)\<rparr>),
                   windowPosition := Some (newX, curY),
                   windowSize := Some (newWidth, newHeight),
                   currentX := newX\<rparr>,
                [SetBounds newX curY newWidth newHeight]))"

text \<open>\<^verbatim>\<open>createWindow\<close>.  What happens inside its \<^verbatim>\<open>try\<close> is the parameter \<open>made\<close>:
  \<^verbatim>\<open>new BrowserWindow(settings)\<close> throws; or the window is made and one of the calls
  on it before its bounds are read throws, which leaves the window in
  \<^verbatim>\<open>mainWindow\<close> with nothing else recorded and no listener installed; or the
  bounds are recorded and the listeners installed (an exception of the calls after
  that changes nothing more).  Every exception is caught and logged.\<close>

datatype creation =
    ConstructorThrew js_error
  | SetupThrew BrowserWindow js_error
  | Created BrowserWindow

definition createWindow :: "Display \<Rightarrow> creation \<Rightarrow> WindowHelper \<Rightarrow> WindowHelper" where
  "createWindow d made wh =
     (if mainWindow wh \<noteq> None then wh
      else
        let wh1 = wh\<lparr>screenWidth := workAreaWidth d, screenHeight := workAreaHeight d,
                      step := \<lfloor>real_of_int (workAreaWidth d) / 10\<rfloor>, currentX := Num 0\<rparr>
        in case made of
             ConstructorThrew e \<Rightarrow> wh1
           | SetupThrew w e \<Rightarrow> wh1\<lparr>mainWindow := Some w\<rparr>
           | Created w \<Rightarrow>
               let (bx, by, bw, bh) = getBounds w
               in wh1\<lparr>mainWindow := Some w, windowPosition := Some (bx, by),
                      windowSize := Some (bw, bh), currentX := bx, currentY := by,
                      listening := True, isWindowVisible := True\<rparr>)"

text \<open>The listeners of \<^verbatim>\<open>setupWindowListeners\<close> for the events \<^verbatim>\<open>move\<close>,
  \<^verbatim>\<open>resize\<close> and \<^verbatim>\<open>closed\<close>; they run only if they were installed.\<close>

definition on_move :: "WindowHelper \<Rightarrow> WindowHelper" where
  "on_move wh =
     (if \<not> listening wh then wh
      else case mainWindow wh of
             None \<Rightarrow> wh
           | Some w \<Rightarrow>
               let (bx, by, _, _) = getBounds w
               in wh\<lparr>windowPosition := Some (bx, by), currentX := bx, currentY := by\<rparr>)"

definition on_resize :: "WindowHelper \<Rightarrow> WindowHelper" where
  "on_resize wh =
     (if \<not> listening wh then wh
      else case mainWindow wh of
             None \<Rightarrow> wh
           | Some w \<Rightarrow>
               let (_, _, bw, bh) = getBounds w
               in wh\<lparr>windowSize := Some (bw, bh)\<rparr>)"

definition on_closed :: "WindowHelper \<Rightarrow> WindowHelper" where
  "on_closed wh =
     (if \<not> listening wh then wh
      else wh\<lparr>mainWindow := None, isWindowVisible := False, windowPosition := None,
              windowSize := None, listening := False\<rparr>)"

definition hideMainWindow :: "WindowHelper \<Rightarrow> WindowHelper \<times> wcall list" where
  "hideMainWindow wh =
     (case mainWindow wh of
        None \<Rightarrow> (wh, [])
      | Some w \<Rightarrow>
          if isDestroyed w then (wh, [])
          else
            let (bx, by, bw, bh) = getBounds w
            in (wh\<lparr>wasFocused := isFocused w, windowPosition := Some (bx, by),
                   windowSize := Some (bw, bh), isWindowVisible := False\<rparr>,
                [Hide]))"

text \<open>\<open>other\<close> tells whether \<^verbatim>\<open>BrowserWindow.getFocusedWindow()\<close> returned a live
  window at the time of the call.\<close>

definition showMainWindow :: "bool \<Rightarrow> WindowHelper \<Rightarrow> WindowHelper \<times> wcall list" where
  "showMainWindow other wh =
     (case mainWindow wh of
        None \<Rightarrow> (wh, [])
      | Some w \<Rightarrow>
          if isDestroyed w then (wh, [])
          else
            let restore =
                  (case (windowPosition wh, windowSize wh) of
                     (Some (px, py), Some (sw, sh)) \<Rightarrow> Some (px, py, sw, sh)
                   | _ \<Rightarrow> None);
                w' = (case restore of None \<Rightarrow> w | Some b \<Rightarrow> w\<lparr>getBounds := b\<rparr>)
            in (wh\<lparr>mainWindow := Some w', isWindowVisible := True\<rparr>,
                (case restore of
                   None \<Rightarrow> []
                 | Some (px, py, sw, sh) \<Rightarrow> [SetBounds px py sw sh])
                @ [ShowInactive] @ (if other then [FocusPrevious] else [])))"

definition toggleMainWindow :: "bool \<Rightarrow> WindowHelper \<Rightarrow> WindowHelper \<times> wcall list" where
  "toggleMainWindow other wh =
     (if isWindowVisible wh then hideMainWindow wh else showMainWindow other wh)"

text \<open>\<^verbatim>\<open>this.windowSize?.width || 0\<close> and \<^verbatim>\<open>this.windowSize?.height || 0\<close>.\<close>

definition windowWidth :: "WindowHelper \<Rightarrow> jsnum" where
  "windowWidth wh = (case windowSize wh of None \<Rightarrow> Num 0 | Some (w, h) \<Rightarrow> or0 w)"

definition windowHeight :: "WindowHelper \<Rightarrow> jsnum" where
  "windowHeight wh = (case windowSize wh of None \<Rightarrow> Num 0 | Some (w, h) \<Rightarrow> or0 h)"

text \<open>The start of the four moves after the test of the window:
  \<^verbatim>\<open>this.currentX = Number(this.currentX) || 0\<close>, and the same for \<^verbatim>\<open>currentY\<close>.\<close>

definition ensureNumbers :: "WindowHelper \<Rightarrow> WindowHelper" where
  "ensureNumbers wh = wh\<lparr>currentX := or0 (currentX wh), currentY := or0 (currentY wh)\<rparr>"

text \<open>The common tail of the four moves: \<^verbatim>\<open>setPosition(Math.round(currentX),
  Math.round(currentY))\<close> on the window, after the fields were updated.  The moves
  test only \<^verbatim>\<open>!this.mainWindow\<close>, so a destroyed window raises here.\<close>

definition setPosition :: "BrowserWindow \<Rightarrow> WindowHelper \<Rightarrow> WindowHelper \<times> wcall list" where
  "setPosition w wh =
     (if isDestroyed w then (wh, [Raise ObjectDestroyed])
      else
        let (_, _, bw, bh) = getBounds w;
            px = Math_round (currentX wh); py = Math_round (currentY wh)
        in (wh\<lparr>mainWindow := Some (w\<lparr>getBounds := (px, py, bw, bh)\<rparr>)\<rparr>,
            [SetPosition px py]))"

definition moveWindowRight :: "WindowHelper \<Rightarrow> WindowHelper \<times> wcall list" where
  "moveWindowRight wh =
     (case mainWindow wh of
        None \<Rightarrow> (wh, [])
      | Some w \<Rightarrow>
          let halfWidth = jhalf (windowWidth wh);
              wh1 = ensureNumbers wh
          in setPosition w
               (wh1\<lparr>currentX := Math_min (jsub (ofInt (screenWidth wh1)) halfWidth)
                                        (jadd (currentX wh1) (ofInt (step wh1)))\<rparr>))"

definition moveWindowLeft :: "WindowHelper \<Rightarrow> WindowHelper \<times> wcall list" where
  "moveWindowLeft wh =
     (case mainWindow wh of
        None \<Rightarrow> (wh, [])
      | Some w \<Rightarrow>
          let halfWidth = jhalf (windowWidth wh);
              wh1 = ensureNumbers wh
          in setPosition w
               (wh1\<lparr>currentX := Math_max (jneg halfWidth)
                                        (jsub (currentX wh1) (ofInt (step wh1)))\<rparr>))"

definition moveWindowDown :: "WindowHelper \<Rightarrow> WindowHelper \<times> wcall list" where
  "moveWindowDown wh =
     (case mainWindow wh of
        None \<Rightarrow> (wh, [])
      | Some w \<Rightarrow>
          let halfHeight = jhalf (windowHeight wh);
              wh1 = ensureNumbers wh
          in setPosition w
               (wh1\<lparr>currentY := Math_min (jsub (ofInt (screenHeight wh1)) halfHeight)
                                        (jadd (currentY wh1) (ofInt (step wh1)))\<rparr>))"

definition moveWindowUp :: "WindowHelper \<Rightarrow> WindowHelper \<times> wcall list" where
  "moveWindowUp wh =
     (case mainWindow wh of
        None \<Rightarrow> (wh, [])
      | Some w \<Rightarrow>
          let halfHeight = jhalf (windowHeight wh);
              wh1 = ensureNumbers wh
          in setPosition w
               (wh1\<lparr>currentY := Math_max (jneg halfHeight)
                                        (jsub (currentY wh1) (ofInt (step wh1)))\<rparr>))"

section \<open>The screenshot store (\<^verbatim>\<open>ScreenshotHelper\<close>)\<close>

text \<open>Modelled from the spec: the class \<^verbatim>\<open>ScreenshotHelper\<close> is not among the
  sources; only its callers in \<^verbatim>\<open>AppState\<close> are.  The spec gives it two ordered
  queues of file paths (main and extra), files under an app-owned directory, and a
  view that selects the queue a capture is appended to.\<close>

record ScreenshotHelper =
  screenshotQueue :: "string list"
  extraScreenshotQueue :: "string list"
  sh_view :: view
  files :: "string set"

definition ScreenshotHelper_init :: "view \<Rightarrow> ScreenshotHelper" where
  "ScreenshotHelper_init v =
     \<lparr>screenshotQueue = [], extraScreenshotQueue = [], sh_view = v, files = {}\<rparr>"

definition queued :: "ScreenshotHelper \<Rightarrow> string set" where
  "queued sh = set (screenshotQueue sh) \<union> set (extraScreenshotQueue sh)"

definition SH_setView :: "view \<Rightarrow> ScreenshotHelper \<Rightarrow> ScreenshotHelper" where
  "SH_setView v sh = sh\<lparr>sh_view := v\<rparr>"

text \<open>Modelled from the spec: "Clearing resets both queues to empty"; a record is
  "removed on delete or queue-clear", its file with it.\<close>

definition SH_clearQueues :: "ScreenshotHelper \<Rightarrow> ScreenshotHelper" where
  "SH_clearQueues sh =
     sh\<lparr>screenshotQueue := [], extraScreenshotQueue := [],
        files := files sh - queued sh\<rparr>"

text \<open>Modelled from the spec: a capture stores the file and appends its path "to the
  queue appropriate to current mode (main queue while composing a problem, extra
  queue when supplementing for a debug pass)"; the queues are "bounded (oldest
  evicted past a fixed capacity)".  The capacity \<open>cap\<close> is not given by the spec and
  is a parameter; \<open>p\<close> is the path of the new file.\<close>

definition evict :: "nat \<Rightarrow> string list \<Rightarrow> string list" where
  "evict cap q = drop (length q - cap) q"

definition SH_capture :: "nat \<Rightarrow> string \<Rightarrow> ScreenshotHelper \<Rightarrow> ScreenshotHelper" where
  "SH_capture cap p sh =
     (if sh_view sh = Queue
      then sh\<lparr>screenshotQueue := evict cap (screenshotQueue sh @ [p]),
              files := insert p (files sh)\<rparr>
      else sh\<lparr>extraScreenshotQueue := evict cap (extraScreenshotQueue sh @ [p]),
              files := insert p (files sh)\<rparr>)"

text \<open>Modelled from the spec: \<^verbatim>\<open>delete(path) -> success|notFound\<close>; "Deleting a
  nonexistent path reports failure without side effects"; a record is "removed on
  delete", its file with it.  The result is the \<^verbatim>\<open>success\<close> field of the reply.\<close>

definition SH_deleteScreenshot :: "string \<Rightarrow> ScreenshotHelper \<Rightarrow> bool \<times> ScreenshotHelper" where
  "SH_deleteScreenshot path sh =
     (if path \<in> queued sh
      then (True,
            sh\<lparr>screenshotQueue := filter (\<lambda>q. q \<noteq> path) (screenshotQueue sh),
               extraScreenshotQueue := filter (\<lambda>q. q \<noteq> path) (extraScreenshotQueue sh),
               files := files sh - {path}\<rparr>)
      else (False, sh))"

text \<open>Sequences of store operations, for the invariant of the queues.\<close>

datatype store_op = Capture string | Delete string | Clear | SetView view

fun store_step :: "nat \<Rightarrow> store_op \<Rightarrow> ScreenshotHelper \<Rightarrow> ScreenshotHelper" where
  "store_step cap (Capture p) sh = SH_capture cap p sh"
| "store_step cap (Delete p) sh = snd (SH_deleteScreenshot p sh)"
| "store_step cap Clear sh = SH_clearQueues sh"
| "store_step cap (SetView v) sh = SH_setView v sh"

fun store_run :: "nat \<Rightarrow> store_op list \<Rightarrow> ScreenshotHelper \<Rightarrow> ScreenshotHelper" where
  "store_run cap [] sh = sh"
| "store_run cap (x # xs) sh = store_run cap xs (store_step cap x sh)"

section \<open>The application state (\<^verbatim>\<open>AppState\<close>)\<close>

record ProblemInfo =
  problem_statement :: string
  input_format :: string
  output_format :: string
  constraints :: "string list"
  test_cases :: "string list"

text \<open>\<open>'p\<close> is the state of the \<^verbatim>\<open>ProcessingHelper\<close>, whose class is not among the
  sources; its methods are parameters of the handlers that call them.\<close>

record 'p AppState =
  windowHelper :: WindowHelper
  screenshotHelper :: ScreenshotHelper
  processingHelper :: 'p
  view :: view
  mode :: mode
  textQuery :: jsstring
  problemInfo :: "ProblemInfo option"
  hasDebugged :: bool

definition AppState_init :: "'p \<Rightarrow> 'p AppState" where
  "AppState_init p =
     \<lparr>windowHelper = WindowHelper_init, screenshotHelper = ScreenshotHelper_init Queue,
      processingHelper = p, view = Queue, mode = Screenshot, textQuery = [],
      problemInfo = None, hasDebugged = False\<rparr>"

text \<open>What a handler did, in order.  A message to the renderer is recorded with the
  application state at the moment of sending.\<close>

datatype 'p event =
    Sent channel payload "'p AppState"
  | Win wcall
  | ApiRequest string

definition getMainWindow :: "'p AppState \<Rightarrow> BrowserWindow option" where
  "getMainWindow s = mainWindow (windowHelper s)"

definition setView :: "view \<Rightarrow> 'p AppState \<Rightarrow> 'p AppState" where
  "setView v s = s\<lparr>view := v, screenshotHelper := SH_setView v (screenshotHelper s)\<rparr>"

definition clearQueues :: "'p AppState \<Rightarrow> 'p AppState" where
  "clearQueues s =
     setView Queue
       (s\<lparr>screenshotHelper := SH_clearQueues (screenshotHelper s), problemInfo := None\<rparr>)"

definition deleteScreenshot :: "string \<Rightarrow> 'p AppState \<Rightarrow> bool \<times> 'p AppState" where
  "deleteScreenshot path s =
     (let (ok, sh) = SH_deleteScreenshot path (screenshotHelper s)
      in (ok, s\<lparr>screenshotHelper := sh\<rparr>))"

definition setHasDebugged :: "bool \<Rightarrow> 'p AppState \<Rightarrow> 'p AppState" where
  "setHasDebugged b s = s\<lparr>hasDebugged := b\<rparr>"

definition setMode :: "mode \<Rightarrow> 'p AppState \<Rightarrow> 'p AppState" where
  "setMode m s = s\<lparr>mode := m\<rparr>"

definition setTextQuery :: "jsstring \<Rightarrow> 'p AppState \<Rightarrow> 'p AppState" where
  "setTextQuery q s = s\<lparr>textQuery := q\<rparr>"

definition setProblemInfo :: "ProblemInfo option \<Rightarrow> 'p AppState \<Rightarrow> 'p AppState" where
  "setProblemInfo i s = s\<lparr>problemInfo := i\<rparr>"

definition toggleMode :: "'p AppState \<Rightarrow> 'p AppState" where
  "toggleMode s = s\<lparr>mode := (if mode s = Screenshot then Text else Screenshot)\<rparr>"

text \<open>The window methods of \<^verbatim>\<open>AppState\<close> delegate to the \<^verbatim>\<open>WindowHelper\<close>.\<close>

definition on_window ::
  "(WindowHelper \<Rightarrow> WindowHelper \<times> wcall list) \<Rightarrow> 'p AppState \<Rightarrow> 'p AppState \<times> 'p event list" where
  "on_window f s = (let (wh, cs) = f (windowHelper s) in (s\<lparr>windowHelper := wh\<rparr>, map Win cs))"

definition AppState_hideMainWindow :: "'p AppState \<Rightarrow> 'p AppState \<times> 'p event list" where
  "AppState_hideMainWindow = on_window hideMainWindow"

definition AppState_showMainWindow :: "bool \<Rightarrow> 'p AppState \<Rightarrow> 'p AppState \<times> 'p event list" where
  "AppState_showMainWindow other = on_window (showMainWindow other)"

definition AppState_toggleMainWindow :: "bool \<Rightarrow> 'p AppState \<Rightarrow> 'p AppState \<times> 'p event list" where
  "AppState_toggleMainWindow other = on_window (toggleMainWindow other)"

definition AppState_setWindowDimensions ::
  "Display \<Rightarrow> jsnum \<Rightarrow> jsnum \<Rightarrow> 'p AppState \<Rightarrow> 'p AppState \<times> 'p event list" where
  "AppState_setWindowDimensions d width height s =
     on_window (setWindowDimensions d (hasDebugged s) width height) s"

definition AppState_moveWindowLeft :: "'p AppState \<Rightarrow> 'p AppState \<times> 'p event list" where
  "AppState_moveWindowLeft = on_window moveWindowLeft"

definition AppState_moveWindowRight :: "'p AppState \<Rightarrow> 'p AppState \<times> 'p event list" where
  "AppState_moveWindowRight = on_window moveWindowRight"

definition AppState_moveWindowDown :: "'p AppState \<Rightarrow> 'p AppState \<times> 'p event list" where
  "AppState_moveWindowDown = on_window moveWindowDown"

definition AppState_moveWindowUp :: "'p AppState \<Rightarrow> 'p AppState \<times> 'p event list" where
  "AppState_moveWindowUp = on_window moveWindowUp"

text \<open>\<^verbatim>\<open>takeScreenshot\<close>: raises without a main window, else delegates to the store's
  capture \<open>shoot\<close> (not among the sources), which hides the window, captures and
  shows it again, and may fail.\<close>

definition takeScreenshot ::
  "('p AppState \<Rightarrow> (js_error + string) \<times> 'p AppState \<times> 'p event list) \<Rightarrow>
   'p AppState \<Rightarrow> (js_error + string) \<times> 'p AppState \<times> 'p event list" where
  "takeScreenshot shoot s =
     (if getMainWindow s = None then (Inl NoMainWindow, s, []) else shoot s)"

section \<open>The global shortcuts (\<^verbatim>\<open>ShortcutsHelper\<close>)\<close>

text \<open>\<^verbatim>\<open>String.prototype.trim\<close> removes the code units of ECMAScript's WhiteSpace
  and LineTerminator productions from both ends.\<close>

definition isWhiteSpace :: "nat \<Rightarrow> bool" where
  "isWhiteSpace c =
     (c \<in> {0x9, 0xA, 0xB, 0xC, 0xD, 0x20, 0xA0, 0x1680, 0x2028, 0x2029, 0x202F,
            0x205F, 0x3000, 0xFEFF}
      \<or> (0x2000 \<le> c \<and> c \<le> 0x200A))"

definition js_trim :: "jsstring \<Rightarrow> jsstring" where
  "js_trim q = rev (dropWhile isWhiteSpace (rev (dropWhile isWhiteSpace q)))"

text \<open>\<^verbatim>\<open>mainWindow.webContents.send(channel, payload)\<close> on the window \<open>w\<close>: a
  destroyed window raises.\<close>

definition send :: "BrowserWindow \<Rightarrow> channel \<Rightarrow> payload \<Rightarrow> 'p AppState \<Rightarrow> 'p event list" where
  "send w ch pl s = (if isDestroyed w then [Win (Raise ObjectDestroyed)] else [Sent ch pl s])"

text \<open>Cmd/Ctrl+H.  \<open>shoot\<close> is the store's capture and \<open>preview\<close> its
  \<^verbatim>\<open>getImagePreview\<close>; an exception inside the \<^verbatim>\<open>try\<close> is caught and logged.  The
  handler sends on the window \<open>w0\<close> it read at its start.  After the two awaits that
  window object is alive only if the state still holds it, a closed window being
  destroyed, and holds it undestroyed; on a destroyed window the send raises inside
  the \<^verbatim>\<open>try\<close>.\<close>

definition stillAlive :: "BrowserWindow \<Rightarrow> 'p AppState \<Rightarrow> bool" where
  "stillAlive w0 s =
     (case getMainWindow s of
        None \<Rightarrow> False
      | Some w \<Rightarrow> windowId w = windowId w0 \<and> \<not> isDestroyed w)"

definition capture_shortcut ::
  "('p AppState \<Rightarrow> (js_error + string) \<times> 'p AppState \<times> 'p event list) \<Rightarrow>
   (string \<Rightarrow> js_error + string) \<Rightarrow> 'p AppState \<Rightarrow> 'p AppState \<times> 'p event list" where
  "capture_shortcut shoot preview s =
     (case getMainWindow s of
        None \<Rightarrow> (s, [])
      | Some w0 \<Rightarrow>
          (case takeScreenshot shoot s of
             (Inl e, s1, es) \<Rightarrow> (s1, es)
           | (Inr path, s1, es) \<Rightarrow>
               (case preview path of
                  Inl e \<Rightarrow> (s1, es)
                | Inr pv \<Rightarrow>
                    if stillAlive w0 s1
                    then (s1, es @ [Sent SCREENSHOT_TAKEN (ShotPayload path pv) s1])
                    else (s1, es))))"

text \<open>Cmd/Ctrl+Enter.  \<open>processQuery\<close> is the method of the \<^verbatim>\<open>ProcessingHelper\<close>
  that runs the solve flow; every external API request of the flow is an
  \<open>ApiRequest\<close> event of its trace.\<close>

definition solve_shortcut ::
  "('p AppState \<Rightarrow> 'p AppState \<times> 'p event list) \<Rightarrow> 'p AppState \<Rightarrow> 'p AppState \<times> 'p event list" where
  "solve_shortcut processQuery s =
     (if mode s = Text \<and> js_trim (textQuery s) = []
      then (case getMainWindow s of
              None \<Rightarrow> (s, [])
            | Some w \<Rightarrow> (s, send w NO_QUERY NoPayload s))
      else processQuery s)"

text \<open>Cmd/Ctrl+R.  \<open>cancelOngoingRequests\<close> is the method of the
  \<^verbatim>\<open>ProcessingHelper\<close> that cancels the requests in flight.\<close>

definition reset_shortcut ::
  "('p AppState \<Rightarrow> 'p AppState \<times> 'p event list) \<Rightarrow> 'p AppState \<Rightarrow> 'p AppState \<times> 'p event list" where
  "reset_shortcut cancelOngoingRequests s =
     (let (s1, es) = cancelOngoingRequests s;
          s2 = clearQueues s1;
          s3 = setView Queue s2
      in case getMainWindow s3 of
           None \<Rightarrow> (s3, es)
         | Some w \<Rightarrow>
             if isDestroyed w then (s3, es)
             else (s3, es @ [Sent RESET_VIEW NoPayload s3]))"

text \<open>Cmd/Ctrl+arrows.\<close>

definition left_shortcut :: "'p AppState \<Rightarrow> 'p AppState \<times> 'p event list" where
  "left_shortcut = AppState_moveWindowLeft"

definition right_shortcut :: "'p AppState \<Rightarrow> 'p AppState \<times> 'p event list" where
  "right_shortcut = AppState_moveWindowRight"

definition down_shortcut :: "'p AppState \<Rightarrow> 'p AppState \<times> 'p event list" where
  "down_shortcut = AppState_moveWindowDown"

definition up_shortcut :: "'p AppState \<Rightarrow> 'p AppState \<times> 'p event list" where
  "up_shortcut = AppState_moveWindowUp"

text \<open>Cmd/Ctrl+B.  On macOS (\<open>darwin\<close>) a window that is now hidden is raised to the
  \<^verbatim>\<open>"normal"\<close> level, and a timer re-asserts \<^verbatim>\<open>"floating"\<close> after 100 ms if the
  window is still alive then.\<close>

definition visibility_shortcut ::
  "bool \<Rightarrow> bool \<Rightarrow> 'p AppState \<Rightarrow> 'p AppState \<times> 'p event list" where
  "visibility_shortcut darwin other s =
     (let (s1, es) = AppState_toggleMainWindow other s
      in case getMainWindow s1 of
           None \<Rightarrow> (s1, es)
         | Some w \<Rightarrow>
             if \<not> isWindowVisible (windowHelper s1) \<and> darwin
             then (if isDestroyed w then (s1, es @ [Win (Raise ObjectDestroyed)])
                   else (s1, es @ [Win (SetAlwaysOnTop ''normal''),
                                   Win (SetAlwaysOnTop ''floating (after 100 ms)'')]))
             else (s1, es))"

text \<open>Cmd/Ctrl+Shift+T.\<close>

definition mode_shortcut :: "'p AppState \<Rightarrow> 'p AppState \<times> 'p event list" where
  "mode_shortcut s =
     (let s1 = toggleMode s
      in case getMainWindow s1 of
           None \<Rightarrow> (s1, [])
         | Some w \<Rightarrow>
             if isDestroyed w then (s1, [])
             else (s1, [Sent MODE_CHANGED (ModePayload (mode s1)) s1]))"

section \<open>The calls of the language-model API\<close>

text \<open>A thrown value, as the \<^verbatim>\<open>catch\<close> clauses read it: \<^verbatim>\<open>error.message\<close>,
  \<^verbatim>\<open>error.response?.status\<close> and \<^verbatim>\<open>error.response?.data?.error?.message\<close>.
  \<^verbatim>\<open>new Error(m)\<close> has no response.\<close>

datatype thrown = Thrown (message: string) (status: "nat option") (upstream: "string option")

definition Error :: "string \<Rightarrow> thrown" where
  "Error m = Thrown m None None"

text \<open>The outcome of \<^verbatim>\<open>axios.post\<close>: a 2xx response with the text the function goes
  on to parse (the message content, or the arguments of the function call), or a
  rejection.\<close>

datatype http = Ok200 string | Failed thrown

text \<open>\<^verbatim>\<open>JSON.parse\<close> is a parameter \<open>parse\<close>: \<open>Inr\<close> the value, or \<open>Inl\<close> the message
  of the SyntaxError it throws.  Each function returns the texts it handed to
  \<^verbatim>\<open>JSON.parse\<close>, in order, and what it resolved to (\<open>Inr\<close>) or rejected with
  (\<open>Inl\<close>).  A 2xx response is taken to carry the text the function reads from it.\<close>

definition missing :: "string option \<Rightarrow> bool" where
  "missing k = (case k of None \<Rightarrow> True | Some v \<Rightarrow> v = [])"

definition keyNotSet :: thrown where
  "keyNotSet = Error ''OpenAI API key not set''"

definition outOfCredits :: thrown where
  "outOfCredits =
     Error ''API Key out of credits. Please refill your OpenAI API credits and try again.''"

text \<open>The replacement of the global pattern "three apostrophes, then one or more
  ASCII letters" by the empty string: every leftmost, longest match is removed.\<close>

definition apostrophe :: char where
  "apostrophe = CHR 0x27"

definition isLetter :: "char \<Rightarrow> bool" where
  "isLetter c =
     (let n = (of_char c :: nat) in (65 \<le> n \<and> n \<le> 90) \<or> (97 \<le> n \<and> n \<le> 122))"

function (sequential) strip_markers :: "string \<Rightarrow> string" where
  "strip_markers (a # b # c # d # rest) =
     (if a = apostrophe \<and> b = apostrophe \<and> c = apostrophe \<and> isLetter d
      then strip_markers (dropWhile isLetter rest)
      else a # strip_markers (b # c # d # rest))"
| "strip_markers (a # rest) = a # strip_markers rest"
| "strip_markers [] = []"
  by pat_completeness auto
termination
  by (relation "measure length")
    (auto simp: less_Suc_eq_le intro: le_SucI length_dropWhile_le)

definition processTextQuery_catch :: "thrown \<Rightarrow> thrown" where
  "processTextQuery_catch e =
     (if status e = Some 429 then Error ''API Key out of credits'' else e)"

definition processTextQuery ::
  "(string \<Rightarrow> string + 'j) \<Rightarrow> string option \<Rightarrow> http \<Rightarrow> string list \<times> (thrown + 'j)" where
  "processTextQuery parse key res =
     (if missing key then ([], Inl keyNotSet)
      else case res of
             Failed e \<Rightarrow> ([], Inl (processTextQuery_catch e))
           | Ok200 content \<Rightarrow>
               (case parse content of
                  Inr j \<Rightarrow> ([content], Inr j)
                | Inl m \<Rightarrow>
                    let content2 = strip_markers content
                    in (case parse content2 of
                          Inr j \<Rightarrow> ([content, content2], Inr j)
                        | Inl m2 \<Rightarrow>
                            ([content, content2], Inl (processTextQuery_catch (Error m2))))))"

definition extractProblemInfo_catch :: "thrown \<Rightarrow> thrown" where
  "extractProblemInfo_catch e = (if status e = Some 429 then outOfCredits else e)"

definition extractProblemInfo ::
  "(string \<Rightarrow> string + 'j) \<Rightarrow> string option \<Rightarrow> http \<Rightarrow> string list \<times> (thrown + 'j)" where
  "extractProblemInfo parse key res =
     (if missing key then ([], Inl keyNotSet)
      else case res of
             Failed e \<Rightarrow> ([], Inl (extractProblemInfo_catch e))
           | Ok200 args \<Rightarrow>
               (case parse args of
                  Inr j \<Rightarrow> ([args], Inr j)
                | Inl m \<Rightarrow> ([args], Inl (extractProblemInfo_catch (Error m)))))"

definition generateSolutionResponses_catch :: "thrown \<Rightarrow> thrown" where
  "generateSolutionResponses_catch e =
     (if status e = Some 429 then outOfCredits
      else Error (''Error generating solutions: '' @ message e))"

definition generateSolutionResponses ::
  "(string \<Rightarrow> string + 'j) \<Rightarrow> string option \<Rightarrow> http \<Rightarrow> string list \<times> (thrown + 'j)" where
  "generateSolutionResponses parse key res =
     (if missing key then ([], Inl (generateSolutionResponses_catch keyNotSet))
      else case res of
             Failed e \<Rightarrow> ([], Inl (generateSolutionResponses_catch e))
           | Ok200 content \<Rightarrow>
               (case parse content of
                  Inr j \<Rightarrow> ([content], Inr j)
                | Inl m \<Rightarrow> ([content], Inl (generateSolutionResponses_catch (Error m)))))"

text \<open>The third test of the chain repeats \<^verbatim>\<open>status === 401\<close>.\<close>

definition debugSolutionResponses_catch :: "thrown \<Rightarrow> thrown" where
  "debugSolutionResponses_catch e =
     (if status e = Some 404
      then Error ''API endpoint not found. Please check the model name and URL.''
      else if status e = Some 401
      then Error ''Authentication failed. Please check your API key.''
      else if status e = Some 401
      then outOfCredits
      else Error (''OpenAI API error: '' @
                  (case upstream e of
                     None \<Rightarrow> message e
                   | Some m \<Rightarrow> if m = [] then message e else m)))"

definition debugSolutionResponses ::
  "(string \<Rightarrow> string + 'j) \<Rightarrow> string option \<Rightarrow> http \<Rightarrow> string list \<times> (thrown + 'j)" where
  "debugSolutionResponses parse key res =
     (if missing key then ([], Inl (debugSolutionResponses_catch keyNotSet))
      else case res of
             Failed e \<Rightarrow> ([], Inl (debugSolutionResponses_catch e))
           | Ok200 args \<Rightarrow>
               (case parse args of
                  Inr j \<Rightarrow> ([args], Inr j)
                | Inl m \<Rightarrow> ([args], Inl (debugSolutionResponses_catch (Error m)))))"

text \<open>The "out of credits" condition: an error whose message starts with
  \<^verbatim>\<open>API Key out of credits\<close>.\<close>

definition isOutOfCredits :: "thrown \<Rightarrow> bool" where
  "isOutOfCredits e = (take 22 (message e) = ''API Key out of credits'')"

text \<open>A fragment of \<^verbatim>\<open>JSON.parse\<close> for running examples: the empty object, the empty
  array and the three literals, surrounded by JSON whitespace, with the values
  \<^verbatim>\<open>JSON.parse\<close> gives them.  The examples use it only on texts on which it agrees
  with \<^verbatim>\<open>JSON.parse\<close>; the message of the SyntaxError, which differs between
  engines, is shortened.\<close>

datatype json = JNull | JBool bool | JArray | JObject

definition isJsonSpace :: "char \<Rightarrow> bool" where
  "isJsonSpace c = (c \<in> {CHR 0x20, CHR 0x09, CHR 0x0A, CHR 0x0D})"

definition parse_atom :: "string \<Rightarrow> string + json" where
  "parse_atom t =
     (let u = rev (dropWhile isJsonSpace (rev (dropWhile isJsonSpace t)))
      in if u = ''{}'' then Inr JObject
         else if u = ''[]'' then Inr JArray
         else if u = ''null'' then Inr JNull
         else if u = ''true'' then Inr (JBool True)
         else if u = ''false'' then Inr (JBool False)
         else Inl ''Unexpected token'')"

section \<open>The subscriptions of the preload script\<close>

text \<open>\<^verbatim>\<open>ipcRenderer\<close> is a Node event emitter: per channel, the listeners in the
  order they were added.  A listener is a function object, compared by identity;
  each evaluation of an arrow function makes a new object (\<open>fresh\<close> is the next
  identity).  A listener of the preload script forwards to the callback \<open>'cb\<close> the
  renderer passed.\<close>

record 'cb ipcRenderer =
  listeners :: "(string \<times> nat \<times> 'cb) list"
  fresh :: nat

definition ipcRenderer_init :: "'cb ipcRenderer" where
  "ipcRenderer_init = \<lparr>listeners = [], fresh = 0\<rparr>"

definition new_function :: "'cb ipcRenderer \<Rightarrow> nat \<times> 'cb ipcRenderer" where
  "new_function r = (fresh r, r\<lparr>fresh := Suc (fresh r)\<rparr>)"

definition on :: "string \<Rightarrow> nat \<Rightarrow> 'cb \<Rightarrow> 'cb ipcRenderer \<Rightarrow> 'cb ipcRenderer" where
  "on ch fid cb r = r\<lparr>listeners := listeners r @ [(ch, fid, cb)]\<rparr>"

text \<open>\<^verbatim>\<open>removeListener\<close> removes the most recently added instance of the listener
  from the channel, if there is one.\<close>

fun remove_first ::
  "string \<Rightarrow> nat \<Rightarrow> (string \<times> nat \<times> 'cb) list \<Rightarrow> (string \<times> nat \<times> 'cb) list" where
  "remove_first ch fid [] = []"
| "remove_first ch fid ((c, i, cb) # ls) =
     (if c = ch \<and> i = fid then ls else (c, i, cb) # remove_first ch fid ls)"

definition removeListener :: "string \<Rightarrow> nat \<Rightarrow> 'cb ipcRenderer \<Rightarrow> 'cb ipcRenderer" where
  "removeListener ch fid r = r\<lparr>listeners := rev (remove_first ch fid (rev (listeners r)))\<rparr>"

text \<open>The callbacks a message on \<open>ch\<close> invokes, in order.\<close>

definition emit :: "string \<Rightarrow> 'cb ipcRenderer \<Rightarrow> 'cb list" where
  "emit ch r = map (\<lambda>(c, i, cb). cb) (filter (\<lambda>(c, i, cb). c = ch) (listeners r))"

datatype subscription =
    OnScreenshotTaken | OnSolutionsReady | OnResetView | OnSolutionStart | OnDebugStart
  | OnDebugSuccess | OnDebugError | OnSolutionError | OnProcessingNoScreenshots
  | OnProblemExtracted | OnSolutionSuccess | OnUnauthorized | OnApiKeyOutOfCredits

fun channel_of :: "subscription \<Rightarrow> string" where
  "channel_of OnScreenshotTaken = ''screenshot-taken''"
| "channel_of OnSolutionsReady = ''solutions-ready''"
| "channel_of OnResetView = ''reset-view''"
| "channel_of OnSolutionStart = ''initial-start''"
| "channel_of OnDebugStart = ''debug-start''"
| "channel_of OnDebugSuccess = ''debug-success''"
| "channel_of OnDebugError = ''debug-error''"
| "channel_of OnSolutionError = ''solution-error''"
| "channel_of OnProcessingNoScreenshots = ''processing-no-screenshots''"
| "channel_of OnProblemExtracted = ''problem-extracted''"
| "channel_of OnSolutionSuccess = ''solution-success''"
| "channel_of OnUnauthorized = ''procesing-unauthorized''"
| "channel_of OnApiKeyOutOfCredits = ''processing-api-key-out-of-credits''"

text \<open>The function a subscription returns.  All but \<^verbatim>\<open>onDebugSuccess\<close> return
  \<^verbatim>\<open>() => ipcRenderer.removeListener(channel, subscription)\<close>, with the listener
  they registered; \<^verbatim>\<open>onDebugSuccess\<close> returns a function that passes
  \<^verbatim>\<open>removeListener\<close> a new arrow function over the same callback.\<close>

datatype 'cb unsubscribe = RemoveRegistered string nat | RemoveNew string 'cb

definition subscribe ::
  "subscription \<Rightarrow> 'cb \<Rightarrow> 'cb ipcRenderer \<Rightarrow> 'cb unsubscribe \<times> 'cb ipcRenderer" where
  "subscribe f cb r =
     (let (fid, r1) = new_function r;
          r2 = on (channel_of f) fid cb r1
      in if f = OnDebugSuccess then (RemoveNew (channel_of f) cb, r2)
         else (RemoveRegistered (channel_of f) fid, r2))"

fun call_unsubscribe :: "'cb unsubscribe \<Rightarrow> 'cb ipcRenderer \<Rightarrow> 'cb ipcRenderer" where
  "call_unsubscribe (RemoveRegistered ch fid) r = removeListener ch fid r"
| "call_unsubscribe (RemoveNew ch cb) r =
     (let (fid, r1) = new_function r in removeListener ch fid r1)"

section \<open>Example states\<close>

text \<open>A 1920 by 1080 work area, and the window Electron makes for the settings of
  \<^verbatim>\<open>createWindow\<close> (height 600, the default width 800, at the origin).\<close>

definition example_display :: Display where
  "example_display = \<lparr>workAreaWidth = 1920, workAreaHeight = 1080\<rparr>"

definition example_window :: BrowserWindow where
  "example_window =
     \<lparr>windowId = 1, isDestroyed = False, isFocused = True,
      getBounds = (Num 0, Num 0, Num 800, Num 600)\<rparr>"

definition example_helper :: WindowHelper where
  "example_helper = createWindow example_display (Created example_window) WindowHelper_init"

definition example_app :: "unit AppState" where
  "example_app = (AppState_init ())\<lparr>windowHelper := example_helper\<rparr>"

text \<open>A solve flow that calls the API at once, to show when the shortcut does not
  start it.\<close>

definition example_flow :: "unit AppState \<Rightarrow> unit AppState \<times> unit event list" where
  "example_flow s = (s, [ApiRequest ''chat/completions''])"

definition is_request :: "'p event \<Rightarrow> bool" where
  "is_request e = (case e of ApiRequest u \<Rightarrow> True | _ \<Rightarrow> False)"

text \<open>Text mode with a query of one space, with and without a window.\<close>

definition blank_text_app :: "unit AppState" where
  "blank_text_app = setTextQuery (js '' '') (setMode Text example_app)"

definition blank_text_init :: "unit AppState" where
  "blank_text_init = setTextQuery (js '' '') (setMode Text (AppState_init ()))"

definition example_ops :: "store_op list" where
  "example_ops = [Capture ''a.png'', Capture ''b.png'', Delete ''a.png'']"

text \<open>A rate-limit rejection, and a response text wrapped in the marker the text
  query strips.\<close>

definition quota_response :: thrown where
  "quota_response =
     Thrown ''Request failed with status code 429'' (Some 429)
       (Some ''You exceeded your current quota'')"

definition fenced_object :: string where
  "fenced_object = [apostrophe, apostrophe, apostrophe] @ ''json {}''"

section \<open>Properties\<close>

subsection \<open>The example states, evaluated\<close>

lemma example_helper_eq:
  "example_helper =
     \<lparr>mainWindow = Some example_window, isWindowVisible = True,
      windowPosition = Some (Num 0, Num 0), windowSize = Some (Num 800, Num 600),
      screenWidth = 1920, screenHeight = 1080, step = 192, currentX = Num 0,
      currentY = Num 0, wasFocused = False, listening = True\<rparr>"
  by (simp add: example_helper_def createWindow_def WindowHelper_init_def
      example_display_def example_window_def)

lemma example_app_window: "getMainWindow example_app = Some example_window"
  by (simp add: getMainWindow_def example_app_def example_helper_eq)

lemma example_window_alive: "\<not> isDestroyed example_window"
  by (simp add: example_window_def)

lemma init_no_window: "getMainWindow (AppState_init p) = None"
  by (simp add: getMainWindow_def AppState_init_def WindowHelper_init_def)

subsection \<open>Reset\<close>

lemma getMainWindow_frame [simp]:
  "getMainWindow (clearQueues s) = getMainWindow s"
  "getMainWindow (setView v s) = getMainWindow s"
  "getMainWindow (toggleMode s) = getMainWindow s"
  by (simp_all add: getMainWindow_def clearQueues_def setView_def toggleMode_def)

text \<open>
  C1.  After the handler of Cmd/Ctrl+R, whatever the state before and whatever the
  cancellation of the requests in flight did, both screenshot queues are empty, the
  cached problem information is null and the view is the initial view \<open>Queue\<close>.  The
  handler sends at most one message of its own, \<^verbatim>\<open>reset-view\<close>, after the events of
  the cancellation, and the state at the moment of sending is the final state, so
  every change is in place before the renderer is told.
\<close>

theorem reset_shortcut_resets:
  "screenshotQueue (screenshotHelper (fst (reset_shortcut cancel s))) = []
   \<and> extraScreenshotQueue (screenshotHelper (fst (reset_shortcut cancel s))) = []
   \<and> problemInfo (fst (reset_shortcut cancel s)) = None
   \<and> view (fst (reset_shortcut cancel s)) = view (AppState_init p)
   \<and> view (AppState_init p) = Queue
   \<and> snd (reset_shortcut cancel s)
       = snd (cancel s)
         @ (if usable (getMainWindow (fst (reset_shortcut cancel s)))
            then [Sent RESET_VIEW NoPayload (fst (reset_shortcut cancel s))] else [])"
proof (cases "cancel s")
  case (Pair s1 es)
  show ?thesis
    by (cases "mainWindow (windowHelper s1)")
      (simp_all add: Pair reset_shortcut_def Let_def getMainWindow_def clearQueues_def
        setView_def SH_setView_def SH_clearQueues_def AppState_init_def usable_def)
qed

subsection \<open>The rate limit\<close>

lemma other_calls_429:
  assumes "status e = Some 429" and "\<not> missing key"
  shows "\<exists>t. processTextQuery parse key (Failed e) = ([], Inl t) \<and> isOutOfCredits t"
    and "\<exists>t. extractProblemInfo parse key (Failed e) = ([], Inl t) \<and> isOutOfCredits t"
    and "\<exists>t. generateSolutionResponses parse key (Failed e) = ([], Inl t) \<and> isOutOfCredits t"
  using assms
  by (simp_all add: processTextQuery_def extractProblemInfo_def generateSolutionResponses_def
      processTextQuery_catch_def extractProblemInfo_catch_def
      generateSolutionResponses_catch_def isOutOfCredits_def Error_def outOfCredits_def)

text \<open>
  C2.  The claim is that an HTTP 429 is mapped to the "out of credits" error by all
  four calls.  The debug call tests the status 401 twice and never 429: a 429 falls
  through to the generic error that carries the upstream message, while the three
  other calls map the same rejection to "out of credits".
\<close>

theorem debugSolutionResponses_429_generic:
  "debugSolutionResponses parse_atom (Some ''sk-test'') (Failed quota_response)
     = ([], Inl (Error ''OpenAI API error: You exceeded your current quota''))
   \<and> isOutOfCredits (Error ''OpenAI API error: You exceeded your current quota'') = False
   \<and> processTextQuery parse_atom (Some ''sk-test'') (Failed quota_response)
     = ([], Inl (Error ''API Key out of credits''))
   \<and> extractProblemInfo parse_atom (Some ''sk-test'') (Failed quota_response)
     = ([], Inl outOfCredits)
   \<and> generateSolutionResponses parse_atom (Some ''sk-test'') (Failed quota_response)
     = ([], Inl outOfCredits)
   \<and> isOutOfCredits outOfCredits
   \<and> isOutOfCredits (Error ''API Key out of credits'')"
  by (simp add: debugSolutionResponses_def debugSolutionResponses_catch_def
      processTextQuery_def processTextQuery_catch_def extractProblemInfo_def
      extractProblemInfo_catch_def generateSolutionResponses_def
      generateSolutionResponses_catch_def missing_def quota_response_def
      isOutOfCredits_def Error_def outOfCredits_def)

subsection \<open>The size of the window\<close>

lemma jle_Math_min:
  "a \<noteq> NaN \<Longrightarrow> b \<noteq> NaN \<Longrightarrow> jle (Math_min a b) a \<and> jle (Math_min a b) b"
  by (cases a; cases b) (simp_all add: Math_min_def)

lemma jle_Math_max:
  "a \<noteq> NaN \<Longrightarrow> b \<noteq> NaN \<Longrightarrow> jle a (Math_max a b) \<and> jle b (Math_max a b)"
  by (cases a; cases b) (simp_all add: Math_max_def)

lemma Math_min_not_NaN: "a \<noteq> NaN \<Longrightarrow> b \<noteq> NaN \<Longrightarrow> Math_min a b \<noteq> NaN"
  by (simp add: Math_min_def)

lemma Math_max_not_NaN: "a \<noteq> NaN \<Longrightarrow> b \<noteq> NaN \<Longrightarrow> Math_max a b \<noteq> NaN"
  by (simp add: Math_max_def)

lemma jadd_Num_not_NaN: "a \<noteq> NaN \<Longrightarrow> jadd a (Num b) \<noteq> NaN"
  by (cases a) simp_all

lemma jsub_Num_not_NaN: "a \<noteq> NaN \<Longrightarrow> jsub a (Num b) \<noteq> NaN"
  by (cases a) (simp_all add: jsub_def)

lemma Num_jsub_not_NaN: "b \<noteq> NaN \<Longrightarrow> jsub (Num a) b \<noteq> NaN"
  by (cases b) (simp_all add: jsub_def)

lemma Math_ceil_not_NaN: "a \<noteq> NaN \<Longrightarrow> Math_ceil a \<noteq> NaN"
  by (cases a) simp_all

lemma jhalf_not_NaN: "a \<noteq> NaN \<Longrightarrow> jhalf a \<noteq> NaN"
  by (cases a) simp_all

lemma jneg_not_NaN: "a \<noteq> NaN \<Longrightarrow> jneg a \<noteq> NaN"
  by (cases a) simp_all

lemma or0_not_NaN: "or0 a \<noteq> NaN"
  by (cases a) simp_all

text \<open>
  C3, as amended.  With a live main window, \<^verbatim>\<open>setWindowDimensions\<close> hands
  \<^verbatim>\<open>setBounds\<close> (and records as the window size) a width of at most the integer part
  of 40% of the usable screen width, or of 75% once \<open>hasDebugged\<close> is set, for every
  requested width that is not \<^verbatim>\<open>NaN\<close>, and a height of at least 100 for every
  requested height that is not \<^verbatim>\<open>NaN\<close>: zero, oversized and infinite values
  included.  A requested \<^verbatim>\<open>NaN\<close> goes through \<^verbatim>\<open>Math.min\<close> and \<^verbatim>\<open>Math.max\<close> as
  \<^verbatim>\<open>NaN\<close> and is what the code hands on and records.
\<close>

theorem setWindowDimensions_bounds:
  assumes "getMainWindow s = Some w" and "\<not> isDestroyed w"
  shows "\<exists>x y nw nh.
           snd (AppState_setWindowDimensions d width height s) = [Win (SetBounds x y nw nh)]
         \<and> windowSize (windowHelper (fst (AppState_setWindowDimensions d width height s)))
             = Some (nw, nh)
         \<and> (width \<noteq> NaN \<longrightarrow>
              jle nw (Num (real_of_int
                \<lfloor>real_of_int (workAreaWidth d) * (if hasDebugged s then 3 / 4 else 2 / 5)\<rfloor>)))
         \<and> (height \<noteq> NaN \<longrightarrow> jle (Num 100) nh)
         \<and> (width = NaN \<longrightarrow> nw = NaN)
         \<and> (height = NaN \<longrightarrow> nh = NaN)"
proof -
  let ?m = "ofInt (maxAllowedWidth d (hasDebugged s))"
  let ?nw = "Math_min (jadd width (Num 32)) ?m"
  let ?nh = "Math_max (Math_ceil height) (Num 100)"
  obtain cx cy cw ch where b: "getBounds w = (cx, cy, cw, ch)"
    by (cases "getBounds w") auto
  let ?x = "Math_min (Math_max cx (Num 0)) (jsub (ofInt (workAreaWidth d)) ?nw)"
  have r: "AppState_setWindowDimensions d width height s
      = (s\<lparr>windowHelper := (windowHelper s)
             \<lparr>mainWindow := Some (w\<lparr>getBounds := (?x, cy, ?nw, ?nh)\<rparr>),
              windowPosition := Some (?x, cy), windowSize := Some (?nw, ?nh),
              currentX := ?x\<rparr>\<rparr>,
         [Win (SetBounds ?x cy ?nw ?nh)])"
    using assms b
    by (simp add: AppState_setWindowDimensions_def on_window_def setWindowDimensions_def
        getMainWindow_def Let_def)
  have m: "?m = Num (real_of_int
      \<lfloor>real_of_int (workAreaWidth d) * (if hasDebugged s then 3 / 4 else 2 / 5)\<rfloor>)"
    by (simp add: ofInt_def maxAllowedWidth_def)
  have w1: "jle ?nw ?m" if "width \<noteq> NaN"
    using jle_Math_min [of "jadd width (Num 32)" ?m] jadd_Num_not_NaN [OF that, of 32]
    by (simp add: ofInt_def)
  have h1: "jle (Num 100) ?nh" if "height \<noteq> NaN"
    using jle_Math_max [of "Math_ceil height" "Num 100"] Math_ceil_not_NaN [OF that]
    by simp
  have w2: "?nw = NaN" if "width = NaN"
    using that by (simp add: Math_min_def)
  have h2: "?nh = NaN" if "height = NaN"
    using that by (simp add: Math_max_def)
  show ?thesis
    using w1 h1 w2 h2 by (simp add: r m [symmetric])
qed

theorem setWindowDimensions_bounds_witness:
  "getMainWindow example_app = Some example_window \<and> \<not> isDestroyed example_window
   \<and> Num 0 \<noteq> NaN \<and> PosInf \<noteq> NaN
   \<and> snd (AppState_setWindowDimensions example_display (Num 0) (Num 0) example_app)
       = [Win (SetBounds (Num 0) (Num 0) (Num 32) (Num 100))]
   \<and> snd (AppState_setWindowDimensions example_display (Num 5000) (Num 5000) example_app)
       = [Win (SetBounds (Num 0) (Num 0) (Num 768) (Num 5000))]
   \<and> snd (AppState_setWindowDimensions example_display (Num 5000) (Num 5000)
            (setHasDebugged True example_app))
       = [Win (SetBounds (Num 0) (Num 0) (Num 1440) (Num 5000))]
   \<and> snd (AppState_setWindowDimensions example_display PosInf PosInf example_app)
       = [Win (SetBounds (Num 0) (Num 0) (Num 768) PosInf)]
   \<and> jle (Num 32) (Num 768) \<and> jle (Num 100) (Num 100) \<and> jle (Num 100) PosInf
   \<and> (\<exists>x y nw nh.
         snd (AppState_setWindowDimensions example_display (Num 0) (Num 0) example_app)
           = [Win (SetBounds x y nw nh)]
       \<and> windowSize (windowHelper
            (fst (AppState_setWindowDimensions example_display (Num 0) (Num 0) example_app)))
           = Some (nw, nh)
       \<and> jle nw (Num 768) \<and> jle (Num 100) nh)"
proof -
  have e: "snd (AppState_setWindowDimensions example_display (Num 0) (Num 0) example_app)
       = [Win (SetBounds (Num 0) (Num 0) (Num 32) (Num 100))]"
    "snd (AppState_setWindowDimensions example_display (Num 5000) (Num 5000) example_app)
       = [Win (SetBounds (Num 0) (Num 0) (Num 768) (Num 5000))]"
    "snd (AppState_setWindowDimensions example_display (Num 5000) (Num 5000)
            (setHasDebugged True example_app))
       = [Win (SetBounds (Num 0) (Num 0) (Num 1440) (Num 5000))]"
    "snd (AppState_setWindowDimensions example_display PosInf PosInf example_app)
       = [Win (SetBounds (Num 0) (Num 0) (Num 768) PosInf)]"
    by (simp_all add: AppState_setWindowDimensions_def on_window_def setWindowDimensions_def
        maxAllowedWidth_def Let_def example_app_def example_helper_eq example_window_def
        example_display_def AppState_init_def setHasDebugged_def Math_min_def Math_max_def
        ofInt_def jsub_def)
  have b: "\<lfloor>real_of_int (workAreaWidth example_display)
             * (if hasDebugged example_app then 3 / 4 else 2 / 5)\<rfloor> = 768"
    by (simp add: example_display_def example_app_def AppState_init_def)
  from setWindowDimensions_bounds [OF example_app_window example_window_alive,
      of example_display "Num 0" "Num 0"]
  have "\<exists>x y nw nh.
         snd (AppState_setWindowDimensions example_display (Num 0) (Num 0) example_app)
           = [Win (SetBounds x y nw nh)]
       \<and> windowSize (windowHelper
            (fst (AppState_setWindowDimensions example_display (Num 0) (Num 0) example_app)))
           = Some (nw, nh)
       \<and> jle nw (Num 768) \<and> jle (Num 100) nh"
    unfolding b by simp
  with example_app_window example_window_alive e show ?thesis
    by simp
qed

text \<open>The claim as stated fails at a requested \<^verbatim>\<open>NaN\<close>: the width and the height
  handed to \<^verbatim>\<open>setBounds\<close> and recorded are \<^verbatim>\<open>NaN\<close>, which is neither at most 768
  (40% of 1920) nor at least 100.\<close>

theorem setWindowDimensions_NaN_counterexample:
  "AppState_setWindowDimensions example_display NaN NaN example_app
     = (example_app\<lparr>windowHelper := example_helper
          \<lparr>mainWindow := Some (example_window\<lparr>getBounds := (NaN, Num 0, NaN, NaN)\<rparr>),
           windowPosition := Some (NaN, Num 0), windowSize := Some (NaN, NaN),
           currentX := NaN\<rparr>\<rparr>,
        [Win (SetBounds NaN (Num 0) NaN NaN)])
   \<and> maxAllowedWidth example_display (hasDebugged example_app) = 768
   \<and> jle NaN (Num 768) = False
   \<and> jle (Num 100) NaN = False"
  by (simp add: AppState_setWindowDimensions_def on_window_def setWindowDimensions_def
      maxAllowedWidth_def Let_def example_app_def example_helper_eq example_window_def
      example_display_def AppState_init_def Math_min_def Math_max_def ofInt_def jsub_def)

subsection \<open>Solving without input\<close>

lemma js_trim_blank: "(js_trim q = []) = (\<forall>c\<in>set q. isWhiteSpace c)"
proof
  assume "js_trim q = []"
  then have a: "\<forall>c\<in>set (dropWhile isWhiteSpace q). isWhiteSpace c"
    by (simp add: js_trim_def dropWhile_eq_Nil_conv)
  have "dropWhile isWhiteSpace q = []"
  proof (rule ccontr)
    assume n: "dropWhile isWhiteSpace q \<noteq> []"
    then have "\<not> isWhiteSpace (hd (dropWhile isWhiteSpace q))"
      by (rule hd_dropWhile)
    moreover have "hd (dropWhile isWhiteSpace q) \<in> set (dropWhile isWhiteSpace q)"
      using n by simp
    ultimately show False
      using a by blast
  qed
  then show "\<forall>c\<in>set q. isWhiteSpace c"
    by (simp add: dropWhile_eq_Nil_conv)
next
  assume "\<forall>c\<in>set q. isWhiteSpace c"
  then have d: "dropWhile isWhiteSpace q = []"
    by (simp add: dropWhile_eq_Nil_conv)
  show "js_trim q = []"
    unfolding js_trim_def d by simp
qed

text \<open>
  C4, as amended.  In text mode with an empty or whitespace-only query, the handler
  of Cmd/Ctrl+Enter never starts the solve flow (so no API request is made, whatever
  the flow would do) and leaves the application state as it was; it sends exactly
  the \<^verbatim>\<open>NO_QUERY\<close> message when a live main window exists, and nothing when there is
  no main window.
\<close>

theorem blank_query_no_solve:
  assumes "mode s = Text" and "\<forall>c\<in>set (textQuery s). isWhiteSpace c"
  shows "fst (solve_shortcut processQuery s) = s
       \<and> filter is_request (snd (solve_shortcut processQuery s)) = []
       \<and> (usable (getMainWindow s) \<longrightarrow>
            snd (solve_shortcut processQuery s) = [Sent NO_QUERY NoPayload s])
       \<and> (getMainWindow s = None \<longrightarrow> snd (solve_shortcut processQuery s) = [])"
proof -
  have "js_trim (textQuery s) = []"
    using assms(2) by (simp add: js_trim_blank)
  with assms(1) show ?thesis
    by (cases "getMainWindow s")
      (simp_all add: solve_shortcut_def send_def usable_def is_request_def)
qed

theorem blank_query_no_solve_witness:
  "mode blank_text_app = Text
   \<and> textQuery blank_text_app = [32]
   \<and> isWhiteSpace 32
   \<and> usable (getMainWindow blank_text_app)
   \<and> solve_shortcut example_flow blank_text_app
       = (blank_text_app, [Sent NO_QUERY NoPayload blank_text_app])"
proof -
  have m: "mode blank_text_app = Text"
    by (simp add: blank_text_app_def setTextQuery_def setMode_def)
  have q: "textQuery blank_text_app = [32]"
    by (simp add: blank_text_app_def setTextQuery_def js_def)
  have b: "\<forall>c\<in>set (textQuery blank_text_app). isWhiteSpace c"
    by (simp add: q isWhiteSpace_def)
  have w: "getMainWindow blank_text_app = Some example_window"
    using example_app_window
    by (simp add: blank_text_app_def setTextQuery_def setMode_def getMainWindow_def)
  have u: "usable (getMainWindow blank_text_app)"
    by (simp add: w usable_def example_window_def)
  from blank_query_no_solve [OF m b, of example_flow] u m q b
  show ?thesis by (simp add: prod_eq_iff)
qed

text \<open>The claim as stated fails without a main window: the query is one space, the
  mode is text, and the handler sends nothing.\<close>

theorem blank_query_counterexample:
  "mode blank_text_init = Text
   \<and> textQuery blank_text_init = [32]
   \<and> js_trim (textQuery blank_text_init) = []
   \<and> getMainWindow blank_text_init = None
   \<and> solve_shortcut example_flow blank_text_init = (blank_text_init, [])"
proof -
  have q: "textQuery blank_text_init = [32]"
    by (simp add: blank_text_init_def setTextQuery_def js_def)
  have t: "js_trim (textQuery blank_text_init) = []"
    by (simp add: q js_trim_blank isWhiteSpace_def)
  have m: "mode blank_text_init = Text"
    by (simp add: blank_text_init_def setTextQuery_def setMode_def)
  have w: "getMainWindow blank_text_init = None"
    using init_no_window [of "()"]
    by (simp add: blank_text_init_def setTextQuery_def setMode_def getMainWindow_def)
  from t show ?thesis
    by (simp add: q m w solve_shortcut_def)
qed

subsection \<open>Parsing the responses\<close>

lemma strip_fenced_object: "strip_markers fenced_object = '' {}''"
  by (simp add: fenced_object_def apostrophe_def isLetter_def)

lemma parse_fenced_object:
  "parse_atom fenced_object = Inl ''Unexpected token''" "parse_atom '' {}'' = Inr JObject"
  by (simp_all add: fenced_object_def parse_atom_def isJsonSpace_def apostrophe_def Let_def)

text \<open>
  C5, as amended.  With an API key set, the text query hands the response text to
  \<^verbatim>\<open>JSON.parse\<close>; if that fails it removes every run of three apostrophes followed
  by ASCII letters and parses the result exactly once more, rejecting with the
  second SyntaxError if that fails too.  Extraction, solution generation and the
  debug call parse the text exactly once and reject on the first failure, with no
  retry.
\<close>

theorem parse_retry_text_query_only:
  assumes "\<not> missing key"
  shows "fst (processTextQuery parse key (Ok200 c))
           = (case parse c of Inr j \<Rightarrow> [c] | Inl m \<Rightarrow> [c, strip_markers c])
       \<and> snd (processTextQuery parse key (Ok200 c))
           = (case parse c of
                Inr j \<Rightarrow> Inr j
              | Inl m \<Rightarrow> (case parse (strip_markers c) of
                            Inr j \<Rightarrow> Inr j
                          | Inl m2 \<Rightarrow> Inl (Error m2)))
       \<and> extractProblemInfo parse key (Ok200 c)
           = ([c], case parse c of Inr j \<Rightarrow> Inr j | Inl m \<Rightarrow> Inl (Error m))
       \<and> generateSolutionResponses parse key (Ok200 c)
           = ([c], case parse c of
                     Inr j \<Rightarrow> Inr j
                   | Inl m \<Rightarrow> Inl (Error (''Error generating solutions: '' @ m)))
       \<and> debugSolutionResponses parse key (Ok200 c)
           = ([c], case parse c of
                     Inr j \<Rightarrow> Inr j
                   | Inl m \<Rightarrow> Inl (Error (''OpenAI API error: '' @ m)))"
  using assms
  by (auto simp: processTextQuery_def extractProblemInfo_def generateSolutionResponses_def
      debugSolutionResponses_def processTextQuery_catch_def extractProblemInfo_catch_def
      generateSolutionResponses_catch_def debugSolutionResponses_catch_def
      Error_def Let_def split: sum.splits)

theorem parse_retry_text_query_only_witness:
  "\<not> missing (Some ''sk-test'')
   \<and> processTextQuery parse_atom (Some ''sk-test'') (Ok200 fenced_object)
       = ([fenced_object, '' {}''], Inr JObject)
   \<and> extractProblemInfo parse_atom (Some ''sk-test'') (Ok200 fenced_object)
       = ([fenced_object], Inl (Error ''Unexpected token''))"
proof -
  have k: "\<not> missing (Some ''sk-test'')"
    by (simp add: missing_def)
  from parse_retry_text_query_only [OF k, of parse_atom fenced_object] k
  show ?thesis
    by (simp add: strip_fenced_object parse_fenced_object prod_eq_iff)
qed

text \<open>The claim as stated fails for solution generation: a text that the stripping
  would make parseable, and that the text query accepts, is rejected after a single
  parse.\<close>

theorem generateSolutionResponses_no_retry:
  "generateSolutionResponses parse_atom (Some ''sk-test'') (Ok200 fenced_object)
     = ([fenced_object], Inl (Error ''Error generating solutions: Unexpected token''))
   \<and> parse_atom (strip_markers fenced_object) = Inr JObject
   \<and> processTextQuery parse_atom (Some ''sk-test'') (Ok200 fenced_object)
     = ([fenced_object, '' {}''], Inr JObject)"
  by (simp add: generateSolutionResponses_def generateSolutionResponses_catch_def
      processTextQuery_def missing_def strip_fenced_object parse_fenced_object Error_def)

subsection \<open>Unsubscribing\<close>

lemma unsubscribe_removes:
  assumes "f \<noteq> OnDebugSuccess"
  shows "listeners (call_unsubscribe (fst (subscribe f cb r)) (snd (subscribe f cb r)))
         = listeners r"
  using assms by (simp add: subscribe_def new_function_def on_def removeListener_def)

text \<open>
  C6.  The claim is that every unsubscribe function removes the listener its
  subscription registered.  The one of \<^verbatim>\<open>onDebugSuccess\<close> passes \<^verbatim>\<open>removeListener\<close>
  a new function, which is not the registered one: after unsubscribing, a
  \<^verbatim>\<open>debug-success\<close> message still invokes the callback.  The sibling
  \<^verbatim>\<open>onDebugError\<close> removes its listener.
\<close>

theorem onDebugSuccess_unsubscribe_keeps_listener:
  "emit ''debug-success''
     (call_unsubscribe (fst (subscribe OnDebugSuccess (1::nat) ipcRenderer_init))
        (snd (subscribe OnDebugSuccess 1 ipcRenderer_init))) = [1]
   \<and> emit ''debug-error''
     (call_unsubscribe (fst (subscribe OnDebugError (1::nat) ipcRenderer_init))
        (snd (subscribe OnDebugError 1 ipcRenderer_init))) = []"
  by (simp add: subscribe_def new_function_def on_def ipcRenderer_init_def
      removeListener_def emit_def)

subsection \<open>Moving the window\<close>

lemma createWindow_step:
  "mainWindow wh = None \<Longrightarrow>
   step (createWindow d made wh) = \<lfloor>real_of_int (screenWidth (createWindow d made wh)) / 10\<rfloor>"
  by (cases made) (simp_all add: createWindow_def Let_def split: prod.splits)

lemma setPosition_alive:
  "\<not> isDestroyed w \<Longrightarrow>
   currentX (fst (setPosition w wh)) = currentX wh
   \<and> currentY (fst (setPosition w wh)) = currentY wh
   \<and> snd (setPosition w wh)
       = [SetPosition (Math_round (currentX wh)) (Math_round (currentY wh))]"
  by (simp add: setPosition_def Let_def split: prod.splits)

lemma Math_min_Num: "Math_min (Num a) (Num b) = Num (min a b)"
  by (simp add: Math_min_def min_def)

lemma Math_max_Num: "Math_max (Num a) (Num b) = Num (max a b)"
  by (simp add: Math_max_def max_def)

lemma jsub_Num: "jsub (Num a) (Num b) = Num (a - b)"
  by (simp add: jsub_def)

lemma windowWidth_not_NaN: "windowWidth wh \<noteq> NaN" "windowHeight wh \<noteq> NaN"
  by (simp_all add: windowWidth_def windowHeight_def or0_not_NaN split: option.splits)

text \<open>
  C7, as amended.  With a live main window and the step that \<^verbatim>\<open>createWindow\<close> sets,
  the integer part of a tenth of the screen width, every move changes one
  coordinate by that step: the horizontal moves and the vertical moves alike use
  the tenth of the width.  The new coordinate is clamped so that half of the
  recorded window size stays on the screen in the direction of travel, and the
  window is positioned at the rounded coordinates.  A coordinate or a recorded size
  that is \<^verbatim>\<open>NaN\<close> counts as zero.  The second half of the statement reads the same
  for finite coordinates and sizes, in plain arithmetic.
\<close>

theorem moveWindow_steps:
  assumes "mainWindow wh = Some w" and "\<not> isDestroyed w"
    and "step wh = \<lfloor>real_of_int (screenWidth wh) / 10\<rfloor>"
  shows "currentX (fst (moveWindowRight wh))
           = Math_min (jsub (ofInt (screenWidth wh)) (jhalf (windowWidth wh)))
               (jadd (or0 (currentX wh)) (ofInt \<lfloor>real_of_int (screenWidth wh) / 10\<rfloor>))
       \<and> currentX (fst (moveWindowLeft wh))
           = Math_max (jneg (jhalf (windowWidth wh)))
               (jsub (or0 (currentX wh)) (ofInt \<lfloor>real_of_int (screenWidth wh) / 10\<rfloor>))
       \<and> currentY (fst (moveWindowDown wh))
           = Math_min (jsub (ofInt (screenHeight wh)) (jhalf (windowHeight wh)))
               (jadd (or0 (currentY wh)) (ofInt \<lfloor>real_of_int (screenWidth wh) / 10\<rfloor>))
       \<and> currentY (fst (moveWindowUp wh))
           = Math_max (jneg (jhalf (windowHeight wh)))
               (jsub (or0 (currentY wh)) (ofInt \<lfloor>real_of_int (screenWidth wh) / 10\<rfloor>))
       \<and> currentY (fst (moveWindowRight wh)) = or0 (currentY wh)
       \<and> currentY (fst (moveWindowLeft wh)) = or0 (currentY wh)
       \<and> currentX (fst (moveWindowDown wh)) = or0 (currentX wh)
       \<and> currentX (fst (moveWindowUp wh)) = or0 (currentX wh)
       \<and> jle (currentX (fst (moveWindowRight wh)))
            (jsub (ofInt (screenWidth wh)) (jhalf (windowWidth wh)))
       \<and> jle (jneg (jhalf (windowWidth wh))) (currentX (fst (moveWindowLeft wh)))
       \<and> jle (currentY (fst (moveWindowDown wh)))
            (jsub (ofInt (screenHeight wh)) (jhalf (windowHeight wh)))
       \<and> jle (jneg (jhalf (windowHeight wh))) (currentY (fst (moveWindowUp wh)))
       \<and> snd (moveWindowRight wh)
           = [SetPosition (Math_round (currentX (fst (moveWindowRight wh))))
                (Math_round (or0 (currentY wh)))]
       \<and> snd (moveWindowLeft wh)
           = [SetPosition (Math_round (currentX (fst (moveWindowLeft wh))))
                (Math_round (or0 (currentY wh)))]
       \<and> snd (moveWindowDown wh)
           = [SetPosition (Math_round (or0 (currentX wh)))
                (Math_round (currentY (fst (moveWindowDown wh))))]
       \<and> snd (moveWindowUp wh)
           = [SetPosition (Math_round (or0 (currentX wh)))
                (Math_round (currentY (fst (moveWindowUp wh))))]
       \<and> (currentX wh = Num cx \<longrightarrow> windowWidth wh = Num ww \<longrightarrow>
            currentX (fst (moveWindowRight wh))
              = Num (min (real_of_int (screenWidth wh) - ww / 2)
                         (cx + real_of_int \<lfloor>real_of_int (screenWidth wh) / 10\<rfloor>))
          \<and> currentX (fst (moveWindowLeft wh))
              = Num (max (- (ww / 2))
                         (cx - real_of_int \<lfloor>real_of_int (screenWidth wh) / 10\<rfloor>))
          \<and> jle (jadd (currentX (fst (moveWindowRight wh))) (jhalf (windowWidth wh)))
               (ofInt (screenWidth wh))
          \<and> jle (Num 0) (jadd (currentX (fst (moveWindowLeft wh))) (jhalf (windowWidth wh))))
       \<and> (currentY wh = Num cy \<longrightarrow> windowHeight wh = Num hh \<longrightarrow>
            currentY (fst (moveWindowDown wh))
              = Num (min (real_of_int (screenHeight wh) - hh / 2)
                         (cy + real_of_int \<lfloor>real_of_int (screenWidth wh) / 10\<rfloor>))
          \<and> currentY (fst (moveWindowUp wh))
              = Num (max (- (hh / 2))
                         (cy - real_of_int \<lfloor>real_of_int (screenWidth wh) / 10\<rfloor>))
          \<and> jle (jadd (currentY (fst (moveWindowDown wh))) (jhalf (windowHeight wh)))
               (ofInt (screenHeight wh))
          \<and> jle (Num 0) (jadd (currentY (fst (moveWindowUp wh))) (jhalf (windowHeight wh))))"
proof -
  let ?t = "ofInt \<lfloor>real_of_int (screenWidth wh) / 10\<rfloor>"
  let ?hw = "jhalf (windowWidth wh)" and ?hh = "jhalf (windowHeight wh)"
  have n: "?hw \<noteq> NaN" "?hh \<noteq> NaN"
    by (simp_all add: jhalf_not_NaN windowWidth_not_NaN)
  have t: "jadd (or0 a) ?t \<noteq> NaN" "jsub (or0 a) ?t \<noteq> NaN" for a
    by (simp_all add: ofInt_def jadd_Num_not_NaN jsub_Num_not_NaN or0_not_NaN)
  have b: "jsub (ofInt i) ?hw \<noteq> NaN" "jsub (ofInt i) ?hh \<noteq> NaN"
    "jneg ?hw \<noteq> NaN" "jneg ?hh \<noteq> NaN" for i
    using n by (simp_all add: ofInt_def Num_jsub_not_NaN jneg_not_NaN)
  have r: "currentX (fst (moveWindowRight wh))
        = Math_min (jsub (ofInt (screenWidth wh)) ?hw) (jadd (or0 (currentX wh)) ?t)"
    "currentY (fst (moveWindowRight wh)) = or0 (currentY wh)"
    "snd (moveWindowRight wh)
        = [SetPosition (Math_round (currentX (fst (moveWindowRight wh))))
             (Math_round (or0 (currentY wh)))]"
    using assms by (simp_all add: moveWindowRight_def ensureNumbers_def setPosition_alive Let_def)
  have l: "currentX (fst (moveWindowLeft wh))
        = Math_max (jneg ?hw) (jsub (or0 (currentX wh)) ?t)"
    "currentY (fst (moveWindowLeft wh)) = or0 (currentY wh)"
    "snd (moveWindowLeft wh)
        = [SetPosition (Math_round (currentX (fst (moveWindowLeft wh))))
             (Math_round (or0 (currentY wh)))]"
    using assms by (simp_all add: moveWindowLeft_def ensureNumbers_def setPosition_alive Let_def)
  have d: "currentY (fst (moveWindowDown wh))
        = Math_min (jsub (ofInt (screenHeight wh)) ?hh) (jadd (or0 (currentY wh)) ?t)"
    "currentX (fst (moveWindowDown wh)) = or0 (currentX wh)"
    "snd (moveWindowDown wh)
        = [SetPosition (Math_round (or0 (currentX wh)))
             (Math_round (currentY (fst (moveWindowDown wh))))]"
    using assms by (simp_all add: moveWindowDown_def ensureNumbers_def setPosition_alive Let_def)
  have u: "currentY (fst (moveWindowUp wh))
        = Math_max (jneg ?hh) (jsub (or0 (currentY wh)) ?t)"
    "currentX (fst (moveWindowUp wh)) = or0 (currentX wh)"
    "snd (moveWindowUp wh)
        = [SetPosition (Math_round (or0 (currentX wh)))
             (Math_round (currentY (fst (moveWindowUp wh))))]"
    using assms by (simp_all add: moveWindowUp_def ensureNumbers_def setPosition_alive Let_def)
  have c: "jle (currentX (fst (moveWindowRight wh))) (jsub (ofInt (screenWidth wh)) ?hw)"
    "jle (jneg ?hw) (currentX (fst (moveWindowLeft wh)))"
    "jle (currentY (fst (moveWindowDown wh))) (jsub (ofInt (screenHeight wh)) ?hh)"
    "jle (jneg ?hh) (currentY (fst (moveWindowUp wh)))"
    unfolding r(1) l(1) d(1) u(1)
    using jle_Math_min [OF b(1) t(1)] jle_Math_max [OF b(3) t(2)]
      jle_Math_min [OF b(2) t(1)] jle_Math_max [OF b(4) t(2)]
    by simp_all
  have fx: "currentX (fst (moveWindowRight wh))
              = Num (min (real_of_int (screenWidth wh) - ww / 2)
                         (cx + real_of_int \<lfloor>real_of_int (screenWidth wh) / 10\<rfloor>))
          \<and> currentX (fst (moveWindowLeft wh))
              = Num (max (- (ww / 2))
                         (cx - real_of_int \<lfloor>real_of_int (screenWidth wh) / 10\<rfloor>))
          \<and> jle (jadd (currentX (fst (moveWindowRight wh))) ?hw) (ofInt (screenWidth wh))
          \<and> jle (Num 0) (jadd (currentX (fst (moveWindowLeft wh))) ?hw)"
    if "currentX wh = Num cx" and "windowWidth wh = Num ww"
    unfolding r(1) l(1) using that
    by (simp add: ofInt_def Math_min_Num Math_max_Num jsub_Num) (simp add: min_def max_def)
  have fy: "currentY (fst (moveWindowDown wh))
              = Num (min (real_of_int (screenHeight wh) - hh / 2)
                         (cy + real_of_int \<lfloor>real_of_int (screenWidth wh) / 10\<rfloor>))
          \<and> currentY (fst (moveWindowUp wh))
              = Num (max (- (hh / 2))
                         (cy - real_of_int \<lfloor>real_of_int (screenWidth wh) / 10\<rfloor>))
          \<and> jle (jadd (currentY (fst (moveWindowDown wh))) ?hh) (ofInt (screenHeight wh))
          \<and> jle (Num 0) (jadd (currentY (fst (moveWindowUp wh))) ?hh)"
    if "currentY wh = Num cy" and "windowHeight wh = Num hh"
    unfolding d(1) u(1) using that
    by (simp add: ofInt_def Math_min_Num Math_max_Num jsub_Num) (simp add: min_def max_def)
  show ?thesis
    using r l d u c fx fy by blast
qed

theorem moveWindow_steps_witness:
  "mainWindow example_helper = Some example_window \<and> \<not> isDestroyed example_window
   \<and> step example_helper = \<lfloor>real_of_int (screenWidth example_helper) / 10\<rfloor>
   \<and> currentX example_helper = Num 0 \<and> windowWidth example_helper = Num 800
   \<and> currentY example_helper = Num 0 \<and> windowHeight example_helper = Num 600
   \<and> currentX (fst (moveWindowRight example_helper)) = Num 192
   \<and> currentX (fst (moveWindowLeft example_helper)) = Num (- 192)
   \<and> currentY (fst (moveWindowDown example_helper)) = Num 192
   \<and> currentY (fst (moveWindowUp example_helper)) = Num (- 192)
   \<and> snd (moveWindowDown example_helper) = [SetPosition (Num 0) (Num 192)]"
proof -
  have w: "mainWindow example_helper = Some example_window"
    by (simp add: example_helper_eq)
  have s: "step example_helper = \<lfloor>real_of_int (screenWidth example_helper) / 10\<rfloor>"
    by (simp add: example_helper_eq)
  have v: "windowWidth example_helper = Num 800" "windowHeight example_helper = Num 600"
    "currentX example_helper = Num 0" "currentY example_helper = Num 0"
    "screenWidth example_helper = 1920" "screenHeight example_helper = 1080"
    by (simp_all add: example_helper_eq windowWidth_def windowHeight_def)
  from moveWindow_steps [OF w example_window_alive s, of 0 800 0 600]
    w s example_window_alive
  show ?thesis by (simp add: v ofInt_def jsub_Num Math_min_Num Math_max_Num)
qed

text \<open>The claim as stated fails for the vertical moves: on a 1920 by 1080 screen the
  window moves down by 192, a tenth of the width, and not by 108, a tenth of the
  height; the clamp at 1080 - 300 is not reached.\<close>

theorem moveWindowDown_counterexample:
  "mainWindow example_helper = Some example_window
   \<and> screenWidth example_helper = 1920 \<and> screenHeight example_helper = 1080
   \<and> windowHeight example_helper = Num 600
   \<and> currentY example_helper = Num 0
   \<and> currentY (fst (moveWindowDown example_helper)) = Num 192
   \<and> snd (moveWindowDown example_helper) = [SetPosition (Num 0) (Num 192)]
   \<and> \<lfloor>real_of_int (screenHeight example_helper) / 10\<rfloor> = 108"
  by (simp add: example_helper_eq moveWindowDown_def windowHeight_def setPosition_def
      ensureNumbers_def example_window_def Let_def ofInt_def jsub_def Math_min_def)

subsection \<open>The screenshot store\<close>

lemma set_evict: "set (evict cap q) \<subseteq> set q"
  by (simp add: evict_def set_drop_subset)

lemma store_step_inv:
  assumes "queued sh \<subseteq> files sh"
  shows "queued (store_step cap x sh) \<subseteq> files (store_step cap x sh)"
proof (cases x)
  case (Capture p)
  have "set (evict cap (q @ [p])) \<subseteq> insert p (set q)" for q
    using set_evict [of cap "q @ [p]"] by auto
  with assms Capture show ?thesis
    by (auto simp: SH_capture_def queued_def dest: subsetD)
next
  case (Delete p)
  with assms show ?thesis
    by (auto simp: SH_deleteScreenshot_def queued_def)
next
  case Clear
  then show ?thesis
    by (simp add: SH_clearQueues_def queued_def)
next
  case (SetView v)
  with assms show ?thesis
    by (simp add: SH_setView_def queued_def)
qed

lemma store_run_inv:
  "queued sh \<subseteq> files sh \<Longrightarrow> queued (store_run cap xs sh) \<subseteq> files (store_run cap xs sh)"
  by (induction xs arbitrary: sh) (simp_all add: store_step_inv)

text \<open>
  C8.  Deleting a path that is in neither queue reports failure and leaves the whole
  application state, the queues and the stored files included, as it was; and after
  any sequence of captures, deletions, clearings and changes of view from the empty
  store, every path in a queue has its file in the store.
\<close>

theorem deleteScreenshot_absent:
  "(path \<notin> queued (screenshotHelper s) \<longrightarrow> deleteScreenshot path s = (False, s))
   \<and> queued (store_run cap xs (ScreenshotHelper_init v))
       \<subseteq> files (store_run cap xs (ScreenshotHelper_init v))"
proof -
  have "queued (ScreenshotHelper_init v) \<subseteq> files (ScreenshotHelper_init v)"
    by (simp add: queued_def ScreenshotHelper_init_def)
  then show ?thesis
    by (simp add: store_run_inv deleteScreenshot_def SH_deleteScreenshot_def)
qed

theorem deleteScreenshot_absent_witness:
  "''c.png'' \<notin> queued (screenshotHelper example_app)
   \<and> deleteScreenshot ''c.png'' example_app = (False, example_app)
   \<and> screenshotQueue (store_run 5 example_ops (ScreenshotHelper_init Queue)) = [''b.png'']
   \<and> files (store_run 5 example_ops (ScreenshotHelper_init Queue)) = {''b.png''}"
proof -
  have a: "''c.png'' \<notin> queued (screenshotHelper example_app)"
    by (simp add: example_app_def AppState_init_def ScreenshotHelper_init_def queued_def)
  have r: "store_run 5 example_ops (ScreenshotHelper_init Queue)
      = \<lparr>screenshotQueue = [''b.png''], extraScreenshotQueue = [], sh_view = Queue,
         files = {''b.png''}\<rparr>"
    by (auto simp: example_ops_def ScreenshotHelper_init_def SH_capture_def
        SH_deleteScreenshot_def queued_def evict_def)
  from deleteScreenshot_absent [of "''c.png''" example_app 5 example_ops Queue] a r
  show ?thesis by simp
qed

subsection \<open>Without a window\<close>

lemma on_window_noop: "f (windowHelper s) = (windowHelper s, []) \<Longrightarrow> on_window f s = (s, [])"
  by (simp add: on_window_def)

lemma unusable_cases:
  "\<not> usable (mainWindow wh) \<Longrightarrow>
   mainWindow wh = None \<or> (\<exists>w. mainWindow wh = Some w \<and> isDestroyed w)"
  by (cases "mainWindow wh") (simp_all add: usable_def)

lemma helper_noop:
  assumes "\<not> usable (mainWindow wh)"
  shows "hideMainWindow wh = (wh, [])" and "showMainWindow other wh = (wh, [])"
    and "toggleMainWindow other wh = (wh, [])"
    and "setWindowDimensions d dbg width height wh = (wh, [])"
  using unusable_cases [OF assms]
  by (auto simp: hideMainWindow_def showMainWindow_def toggleMainWindow_def
      setWindowDimensions_def)

lemma helper_move_noop:
  assumes "mainWindow wh = None"
  shows "moveWindowLeft wh = (wh, [])" and "moveWindowRight wh = (wh, [])"
    and "moveWindowUp wh = (wh, [])" and "moveWindowDown wh = (wh, [])"
  using assms
  by (simp_all add: moveWindowLeft_def moveWindowRight_def moveWindowUp_def moveWindowDown_def)

text \<open>
  C9, as amended.  Without a live main window (none, or a destroyed one), hiding,
  showing, toggling and \<^verbatim>\<open>setWindowDimensions\<close> do nothing: the state is unchanged
  and no call is made, so nothing is raised.  Without a main window, the same
  holds for the four moves and for the shortcuts that move the window, toggle its
  visibility and capture a screenshot.  The shortcuts that toggle the mode and that
  reset still change the state (the mode; the queues, the problem information and
  the view) and send nothing of their own.
\<close>

theorem no_window_noop:
  assumes "\<not> usable (getMainWindow s)"
  shows "AppState_hideMainWindow s = (s, [])
       \<and> AppState_showMainWindow other s = (s, [])
       \<and> AppState_toggleMainWindow other s = (s, [])
       \<and> AppState_setWindowDimensions d width height s = (s, [])
       \<and> (getMainWindow s = None \<longrightarrow>
            AppState_moveWindowLeft s = (s, []) \<and> AppState_moveWindowRight s = (s, [])
          \<and> AppState_moveWindowUp s = (s, []) \<and> AppState_moveWindowDown s = (s, [])
          \<and> left_shortcut s = (s, []) \<and> right_shortcut s = (s, [])
          \<and> up_shortcut s = (s, []) \<and> down_shortcut s = (s, [])
          \<and> visibility_shortcut darwin other s = (s, [])
          \<and> capture_shortcut shoot preview s = (s, []))
       \<and> mode_shortcut s = (toggleMode s, [])
       \<and> (\<not> usable (getMainWindow (fst (cancel s))) \<longrightarrow>
            reset_shortcut cancel s
              = (setView Queue (clearQueues (fst (cancel s))), snd (cancel s)))"
proof -
  have u: "\<not> usable (mainWindow (windowHelper s))"
    using assms by (simp add: getMainWindow_def)
  have a: "AppState_hideMainWindow s = (s, [])"
    "AppState_showMainWindow other s = (s, [])"
    "AppState_toggleMainWindow other s = (s, [])"
    "AppState_setWindowDimensions d width height s = (s, [])"
    by (simp_all add: AppState_hideMainWindow_def AppState_showMainWindow_def
        AppState_toggleMainWindow_def AppState_setWindowDimensions_def
        on_window_noop helper_noop [OF u])
  have b: "AppState_moveWindowLeft s = (s, []) \<and> AppState_moveWindowRight s = (s, [])
      \<and> AppState_moveWindowUp s = (s, []) \<and> AppState_moveWindowDown s = (s, [])"
    if "getMainWindow s = None"
    using that
    by (simp add: AppState_moveWindowLeft_def AppState_moveWindowRight_def
        AppState_moveWindowUp_def AppState_moveWindowDown_def getMainWindow_def
        on_window_noop helper_move_noop)
  have c: "visibility_shortcut darwin other s = (s, [])
      \<and> capture_shortcut shoot preview s = (s, [])"
    if "getMainWindow s = None"
    using that a(3) by (simp add: visibility_shortcut_def capture_shortcut_def)
  have m: "mode_shortcut s = (toggleMode s, [])"
    using unusable_cases [OF u]
    by (auto simp: mode_shortcut_def Let_def getMainWindow_def toggleMode_def)
  have r: "reset_shortcut cancel s
      = (setView Queue (clearQueues (fst (cancel s))), snd (cancel s))"
    if "\<not> usable (getMainWindow (fst (cancel s)))"
  proof (cases "cancel s")
    case (Pair s1 es)
    with that have "\<not> usable (mainWindow (windowHelper s1))"
      by (simp add: getMainWindow_def)
    from unusable_cases [OF this] show ?thesis
      by (auto simp: Pair reset_shortcut_def Let_def getMainWindow_def clearQueues_def
          setView_def)
  qed
  show ?thesis
    using a b c m r
    by (simp add: left_shortcut_def right_shortcut_def up_shortcut_def down_shortcut_def)
qed

theorem no_window_noop_witness:
  "\<not> usable (getMainWindow (AppState_init ()))
   \<and> getMainWindow (AppState_init ()) = None
   \<and> AppState_hideMainWindow (AppState_init ()) = (AppState_init (), [])
   \<and> AppState_setWindowDimensions example_display (Num 0) (Num 0) (AppState_init ())
       = (AppState_init (), [])
   \<and> right_shortcut (AppState_init ()) = (AppState_init (), [])
   \<and> mode_shortcut (AppState_init ()) = (toggleMode (AppState_init ()), [])"
proof -
  have n: "getMainWindow (AppState_init ()) = None"
    by (rule init_no_window)
  then have u: "\<not> usable (getMainWindow (AppState_init ()))"
    by (simp add: usable_def)
  from no_window_noop [OF u, of _ example_display "Num 0" "Num 0"] n u
  show ?thesis by simp
qed

text \<open>The claim as stated fails for the shortcut that toggles the mode: without a
  main window it still changes the mode of the application.\<close>

theorem mode_shortcut_counterexample:
  "getMainWindow (AppState_init ()) = None
   \<and> mode (AppState_init ()) = Screenshot
   \<and> mode (fst (mode_shortcut (AppState_init ()))) = Text
   \<and> snd (mode_shortcut (AppState_init ())) = []"
  by (simp add: mode_shortcut_def toggleMode_def getMainWindow_def AppState_init_def
      WindowHelper_init_def Let_def)

subsection \<open>What a reset leaves alone\<close>

lemma clearQueues_frame:
  "mode (clearQueues s) = mode s" "textQuery (clearQueues s) = textQuery s"
  "hasDebugged (clearQueues s) = hasDebugged s"
  "processingHelper (clearQueues s) = processingHelper s"
  "windowHelper (clearQueues s) = windowHelper s"
  by (simp_all add: clearQueues_def setView_def)

lemma reset_shortcut_frame:
  assumes "mode (fst (cancel s)) = mode s" and "textQuery (fst (cancel s)) = textQuery s"
    and "hasDebugged (fst (cancel s)) = hasDebugged s"
  shows "mode (fst (reset_shortcut cancel s)) = mode s
       \<and> textQuery (fst (reset_shortcut cancel s)) = textQuery s
       \<and> hasDebugged (fst (reset_shortcut cancel s)) = hasDebugged s"
  using assms
  by (cases "cancel s")
    (auto simp: reset_shortcut_def Let_def clearQueues_def setView_def split: option.splits)

text \<open>
  C10.  \<^verbatim>\<open>clearQueues\<close> changes the screenshot store, the problem information and
  the view, and nothing else: after any number of calls the mode, the text query,
  the \<open>hasDebugged\<close> flag, the window controller and the processing helper are as
  before.  So once \<open>hasDebugged\<close> is set, the width bound of
  \<^verbatim>\<open>setWindowDimensions\<close> stays at 75% of the usable width across resets.
\<close>

theorem clearQueues_frame_debug:
  "mode ((clearQueues ^^ n) s) = mode s
   \<and> textQuery ((clearQueues ^^ n) s) = textQuery s
   \<and> hasDebugged ((clearQueues ^^ n) s) = hasDebugged s
   \<and> windowHelper ((clearQueues ^^ n) s) = windowHelper s
   \<and> processingHelper ((clearQueues ^^ n) s) = processingHelper s
   \<and> clearQueues s
       = s\<lparr>screenshotHelper := SH_setView Queue (SH_clearQueues (screenshotHelper s)),
            problemInfo := None, view := Queue\<rparr>
   \<and> maxAllowedWidth d (hasDebugged ((clearQueues ^^ n) (setHasDebugged True s)))
       = \<lfloor>real_of_int (workAreaWidth d) * (3 / 4)\<rfloor>
   \<and> snd (AppState_setWindowDimensions d width height ((clearQueues ^^ n) (setHasDebugged True s)))
       = snd (on_window (setWindowDimensions d True width height) s)"
proof -
  have f: "mode ((clearQueues ^^ n) s) = mode s
      \<and> textQuery ((clearQueues ^^ n) s) = textQuery s
      \<and> hasDebugged ((clearQueues ^^ n) s) = hasDebugged s
      \<and> windowHelper ((clearQueues ^^ n) s) = windowHelper s
      \<and> processingHelper ((clearQueues ^^ n) s) = processingHelper s" for s :: "'a AppState"
    by (induction n) (simp_all add: clearQueues_frame)
  have e: "clearQueues s
       = s\<lparr>screenshotHelper := SH_setView Queue (SH_clearQueues (screenshotHelper s)),
            problemInfo := None, view := Queue\<rparr>"
    by (simp add: clearQueues_def setView_def)
  have h: "hasDebugged ((clearQueues ^^ n) (setHasDebugged True s))"
    using f [of "setHasDebugged True s"] by (simp add: setHasDebugged_def)
  have w: "snd (AppState_setWindowDimensions d width height
                 ((clearQueues ^^ n) (setHasDebugged True s)))
       = snd (on_window (setWindowDimensions d True width height) s)"
    using f [of "setHasDebugged True s"]
    by (simp add: AppState_setWindowDimensions_def on_window_def setHasDebugged_def
        split: prod.splits)
  from f e w h show ?thesis by (simp add: maxAllowedWidth_def)
qed

end

